theory Spec2Isabelle
  imports Complex_Main
begin

section \<open>Conventions\<close>

text \<open>
  The program is \<^verbatim>\<open>src/llama/model.py\<close>: a LLaMA decoder whose attention
  projections pass through TenSEAL ciphertexts. Python integers are \<open>int\<close>; sizes that a
  constructor has accepted are \<open>nat\<close>. Floating-point numbers (float32, complex64)
  are idealised as \<open>real\<close> and \<open>complex\<close>: rounding is not modelled.
  Every exception of the source is a value of \<open>error\<close>, returned as \<open>Inl\<close>.
\<close>

datatype error =
    ZeroDivisionError   \<comment> \<open>Python: integer division by zero\<close>
  | ValueError          \<comment> \<open>Python: unpacking a shape of the wrong rank; TenSEAL reshape\<close>
  | IndexError          \<comment> \<open>index out of range (embedding lookup, \<open>h[:, -1, :]\<close>)\<close>
  | RuntimeError        \<comment> \<open>torch: shapes that do not fit an operation\<close>

definition bind_err :: "error + 'a \<Rightarrow> ('a \<Rightarrow> error + 'b) \<Rightarrow> error + 'b" where
  "bind_err m f = (case m of Inl e \<Rightarrow> Inl e | Inr x \<Rightarrow> f x)"

section \<open>Configuration\<close>

text \<open>The dataclass \<^verbatim>\<open>ModelArgs\<close> (lines 23-33), with its defaults.\<close>

record ModelArgs =
  dim :: int
  n_layers :: int
  n_heads :: int
  vocab_size :: int
  multiple_of :: int
  norm_eps :: real
  max_batch_size :: int
  max_seq_len :: int

definition default_ModelArgs :: ModelArgs where
  "default_ModelArgs =
     \<lparr>dim = 512, n_layers = 8, n_heads = 8, vocab_size = - 1, multiple_of = 256,
      norm_eps = 1 / 100000, max_batch_size = 32, max_seq_len = 1024\<rparr>"

section \<open>Feed-forward hidden width\<close>

text \<open>Python's \<^verbatim>\<open>int(x)\<close> on a float: truncation towards zero.\<close>

definition py_int :: "real \<Rightarrow> int" where
  "py_int x = (if 0 \<le> x then \<lfloor>x\<rfloor> else \<lceil>x\<rceil>)"

text \<open>
  \<^verbatim>\<open>FeedForward.__init__\<close>, lines 223-224:
  \<^verbatim>\<open>hidden_dim = int(2 * hidden_dim / 3)\<close> (true division, then truncation) and
  \<^verbatim>\<open>hidden_dim = multiple_of * ((hidden_dim + multiple_of - 1) // multiple_of)\<close>
  (floor division, which raises on a zero divisor).
\<close>

definition FeedForward_hidden_dim :: "int \<Rightarrow> int \<Rightarrow> error + int" where
  "FeedForward_hidden_dim hidden_dim mult =
     (let hidden_dim1 = py_int (2 * of_int hidden_dim / 3)
      in if mult = 0 then Inl ZeroDivisionError
         else Inr (mult * ((hidden_dim1 + mult - 1) div mult)))"

text \<open>
  \<^verbatim>\<open>TransformerBlock.__init__\<close>, lines 247-249: the block asks for
  \<^verbatim>\<open>hidden_dim=4 * args.dim\<close>.
\<close>

definition TransformerBlock_hidden_dim :: "ModelArgs \<Rightarrow> error + int" where
  "TransformerBlock_hidden_dim args = FeedForward_hidden_dim (4 * dim args) (multiple_of args)"

text \<open>Rounding \<open>n\<close> up to the next multiple of \<open>m\<close>, for comparison.\<close>

definition round_up_to :: "int \<Rightarrow> int \<Rightarrow> int" where
  "round_up_to m n = m * \<lceil>of_int n / (of_int m :: real)\<rceil>"

section \<open>Tensors\<close>

text \<open>
  A \<^verbatim>\<open>torch.Tensor\<close> is its shape and its elements in row-major order, as torch
  stores a contiguous tensor. \<open>tab\<close> builds the elements of a tensor of a given shape
  from a function of the multi-index; \<open>elem_at\<close> reads the element at a multi-index.
\<close>

record 'a tensor =
  shape :: "nat list"
  data :: "'a list"

definition numel :: "'a tensor \<Rightarrow> nat" where
  "numel t = prod_list (shape t)"


fun tab :: "nat list \<Rightarrow> (nat list \<Rightarrow> 'a) \<Rightarrow> 'a list" where
  "tab [] f = [f []]"
| "tab (d # ds) f = concat (map (\<lambda>i. tab ds (\<lambda>idx. f (i # idx))) [0..<d])"

definition tabulate :: "nat list \<Rightarrow> (nat list \<Rightarrow> 'a) \<Rightarrow> 'a tensor" where
  "tabulate sh f = \<lparr>shape = sh, data = tab sh f\<rparr>"

fun flat_index :: "nat list \<Rightarrow> nat list \<Rightarrow> nat" where
  "flat_index (d # ds) (i # idx) = i * prod_list ds + flat_index ds idx"
| "flat_index ds idx = 0"

definition elem_at :: "'a tensor \<Rightarrow> nat list \<Rightarrow> 'a" where
  "elem_at t idx = data t ! flat_index (shape t) idx"

text \<open>A multi-index that lies inside a shape.\<close>

definition valid_index :: "nat list \<Rightarrow> nat list \<Rightarrow> bool" where
  "valid_index sh idx \<longleftrightarrow> list_all2 (\<lambda>i d. i < d) idx sh"

text \<open>\<^verbatim>\<open>torch.zeros(shape)\<close>, \<^verbatim>\<open>x.squeeze()\<close> (every axis of size 1 goes) and
  \<^verbatim>\<open>x.reshape(shape)\<close> (the element count must agree).\<close>

definition zeros :: "nat list \<Rightarrow> real tensor" where
  "zeros sh = tabulate sh (\<lambda>idx. 0)"

definition squeeze :: "'a tensor \<Rightarrow> 'a tensor" where
  "squeeze t = t\<lparr>shape := filter (\<lambda>d. d \<noteq> 1) (shape t)\<rparr>"

definition reshape :: "nat list \<Rightarrow> 'a tensor \<Rightarrow> error + 'a tensor" where
  "reshape sh t = (if prod_list sh = numel t then Inr (t\<lparr>shape := sh\<rparr>) else Inl RuntimeError)"

text \<open>
  The size that \<^verbatim>\<open>view(..., -1)\<close> infers for the free axis, given the product \<open>known\<close>
  of the other sizes and the element count \<open>n\<close>: torch accepts it only when \<open>known\<close>
  is positive and divides \<open>n\<close>.
\<close>

definition view_infer :: "nat \<Rightarrow> nat \<Rightarrow> error + nat" where
  "view_infer known n = (if 0 < known \<and> n mod known = 0 then Inr (n div known) else Inl RuntimeError)"

text \<open>
  Broadcasting, as torch defines it: shapes are aligned at the right, a missing axis
  counts as 1, and two sizes fit when they are equal or one of them is 1.
\<close>

definition broadcast_dim :: "nat \<Rightarrow> nat \<Rightarrow> error + nat" where
  "broadcast_dim a b =
     (if a = b then Inr a else if a = 1 then Inr b else if b = 1 then Inr a else Inl RuntimeError)"

fun broadcast_dims :: "nat list \<Rightarrow> nat list \<Rightarrow> error + nat list" where
  "broadcast_dims (a # as) (b # bs) =
     bind_err (broadcast_dim a b) (\<lambda>d. bind_err (broadcast_dims as bs) (\<lambda>ds. Inr (d # ds)))"
| "broadcast_dims as bs = Inr []"

definition pad_shape :: "nat \<Rightarrow> nat list \<Rightarrow> nat list" where
  "pad_shape n sh = replicate (n - length sh) 1 @ sh"

definition broadcast_shapes :: "nat list \<Rightarrow> nat list \<Rightarrow> error + nat list" where
  "broadcast_shapes sa sb =
     (let n = max (length sa) (length sb) in broadcast_dims (pad_shape n sa) (pad_shape n sb))"

text \<open>The element of \<open>t\<close> that position \<open>idx\<close> of the broadcast result reads.\<close>

definition bc_at :: "'a tensor \<Rightarrow> nat list \<Rightarrow> 'a" where
  "bc_at t idx =
     (let sh = pad_shape (length idx) (shape t)
      in data t ! flat_index sh (map2 (\<lambda>d i. if d = 1 then 0 else i) sh idx))"

definition tensor_binop :: "('a \<Rightarrow> 'b \<Rightarrow> 'c) \<Rightarrow> 'a tensor \<Rightarrow> 'b tensor \<Rightarrow> error + 'c tensor" where
  "tensor_binop f a b =
     bind_err (broadcast_shapes (shape a) (shape b))
       (\<lambda>sh. Inr (tabulate sh (\<lambda>idx. f (bc_at a idx) (bc_at b idx))))"

definition tensor_map :: "('a \<Rightarrow> 'b) \<Rightarrow> 'a tensor \<Rightarrow> 'b tensor" where
  "tensor_map f t = \<lparr>shape = shape t, data = map f (data t)\<rparr>"

section \<open>Rotary position table\<close>

text \<open>\<^verbatim>\<open>torch.polar(abs, angle)\<close>: the complex number \<open>abs * (cos angle + i sin angle)\<close>.\<close>

definition polar :: "real \<Rightarrow> real \<Rightarrow> complex" where
  "polar r a = Complex (r * cos a) (r * sin a)"

text \<open>
  \<^verbatim>\<open>precompute_freqs_cis(dim, end, theta)\<close>, lines 50-55.
  \<^verbatim>\<open>torch.arange(0, dim, 2)[: (dim // 2)]\<close> is the list \<open>0, 2, ...\<close> cut to
  \<open>dim div 2\<close> entries; \<open>freqs\<close> is \<open>1.0 / theta ** (k / dim)\<close> for each of them;
  \<^verbatim>\<open>torch.outer(t, freqs)\<close> has the entry \<open>p * freqs[i]\<close> at \<open>(p, i)\<close>, and
  \<^verbatim>\<open>torch.polar\<close> of ones and these angles is the table. The power is \<open>powr\<close>,
  which is the real power for the positive bases the function is used with.
\<close>

definition arange_step2 :: "nat \<Rightarrow> nat list" where
  "arange_step2 n = map (\<lambda>i. 2 * i) [0..<(n + 1) div 2]"

definition rotary_freqs :: "nat \<Rightarrow> real \<Rightarrow> real list" where
  "rotary_freqs d theta =
     map (\<lambda>k. 1 / (theta powr (real k / real d))) (take (d div 2) (arange_step2 d))"

definition precompute_freqs_cis :: "nat \<Rightarrow> nat \<Rightarrow> real \<Rightarrow> complex tensor" where
  "precompute_freqs_cis d endp theta =
     (let freqs = rotary_freqs d theta;
          t = [0..<endp];
          outer = map (\<lambda>p. map (\<lambda>f. real p * f) freqs) t
      in \<lparr>shape = [endp, length freqs], data = concat (map (map (polar 1)) outer)\<rparr>)"

text \<open>The default of the third parameter, \<^verbatim>\<open>theta: float = 10000.0\<close>.\<close>

definition precompute_freqs_cis_default :: "nat \<Rightarrow> nat \<Rightarrow> complex tensor" where
  "precompute_freqs_cis_default d endp = precompute_freqs_cis d endp 10000"

text \<open>
  \<^verbatim>\<open>Transformer.__init__\<close>, lines 281-283: the table of the model is built by
  \<^verbatim>\<open>precompute_freqs_cis(dim // n_heads, max_seq_len * 2)\<close>. Python's \<open>//\<close> raises
  on a zero divisor; \<^verbatim>\<open>torch.arange\<close> raises on a negative bound.
\<close>

definition Transformer_freqs_cis :: "ModelArgs \<Rightarrow> error + complex tensor" where
  "Transformer_freqs_cis args =
     (if n_heads args = 0 then Inl ZeroDivisionError
      else if dim args div n_heads args < 0 \<or> max_seq_len args * 2 < 0 then Inl RuntimeError
      else Inr (precompute_freqs_cis_default (nat (dim args div n_heads args))
                  (nat (max_seq_len args * 2))))"

text \<open>\<^verbatim>\<open>t[lo:hi]\<close> on the first axis, for \<open>0 \<le> lo\<close>: both bounds are clipped to the size.\<close>

definition slice_rows :: "nat \<Rightarrow> nat \<Rightarrow> 'a tensor \<Rightarrow> 'a tensor" where
  "slice_rows lo hi t =
     (case shape t of
        [] \<Rightarrow> t
      | n # ds \<Rightarrow> \<lparr>shape = (min hi n - min lo n) # ds,
                  data = take ((min hi n - min lo n) * prod_list ds)
                           (drop (min lo n * prod_list ds) (data t))\<rparr>)"

section \<open>Rotary rotation\<close>

text \<open>
  \<^verbatim>\<open>apply_rotary_emb\<close>, the executed body (lines 93-108). \<open>freqs_cis\<close> is the
  rank-2 table slice (positions, half head dimension).
  \<^item> \<open>ll\<close> is the real part of every entry and \<open>rr\<close> the imaginary part;
    \<^verbatim>\<open>cat((ll, ll), dim=-1).flatten(1)\<close> writes each real part twice, and
    \<^verbatim>\<open>cat((-rr, rr), dim=-1).flatten(1)\<close> each imaginary part negated and then plain;
    \<^verbatim>\<open>.view(seqlen, 1, -1)\<close> infers the last size.
  \<^item> \<^verbatim>\<open>xq.reshape([seqlen, n_local_heads, head_dim//2, 2])[:, :, :, slice(0, 2)]\<close>
    takes both entries of every pair in their order: \<open>take 2\<close> of a pair. The result is
    reshaped to \<open>[seqlen, n_local_heads, head_dim]\<close>.
  \<^item> \<open>xq * freqs_cis_l + xq_ * freqs_cis_r\<close> multiplies and adds with broadcasting.
\<close>

definition freqs_cis_l :: "nat \<Rightarrow> complex tensor \<Rightarrow> error + real tensor" where
  "freqs_cis_l seqlen freqs_cis =
     (let flat = concat (map (\<lambda>c. [Re c, Re c]) (data freqs_cis))
      in bind_err (view_infer (seqlen * 1) (2 * numel freqs_cis))
           (\<lambda>k. Inr \<lparr>shape = [seqlen, 1, k], data = flat\<rparr>))"

definition freqs_cis_r :: "nat \<Rightarrow> complex tensor \<Rightarrow> error + real tensor" where
  "freqs_cis_r seqlen freqs_cis =
     (let flat = concat (map (\<lambda>c. [- Im c, Im c]) (data freqs_cis))
      in bind_err (view_infer (seqlen * 1) (2 * numel freqs_cis))
           (\<lambda>k. Inr \<lparr>shape = [seqlen, 1, k], data = flat\<rparr>))"

fun pairs_of :: "'a list \<Rightarrow> 'a list list" where
  "pairs_of (a # b # xs) = [a, b] # pairs_of xs"
| "pairs_of xs = []"

definition pair_slice :: "nat \<Rightarrow> nat \<Rightarrow> nat \<Rightarrow> real tensor \<Rightarrow> error + real tensor" where
  "pair_slice seqlen n_local_heads hdim x =
     bind_err (reshape [seqlen, n_local_heads, hdim div 2, 2] x)
       (\<lambda>x4. reshape [seqlen, n_local_heads, hdim]
                \<lparr>shape = [seqlen, n_local_heads, hdim div 2, 2],
                 data = concat (map (take 2) (pairs_of (data x4)))\<rparr>)"

definition rotate :: "nat \<Rightarrow> nat \<Rightarrow> nat \<Rightarrow> real tensor \<Rightarrow> real tensor \<Rightarrow> real tensor
    \<Rightarrow> error + real tensor" where
  "rotate seqlen n_local_heads hdim fl fr x =
     bind_err (pair_slice seqlen n_local_heads hdim x)
       (\<lambda>xs. bind_err (tensor_binop (*) x fl)
          (\<lambda>a. bind_err (tensor_binop (*) xs fr)
             (\<lambda>b. tensor_binop (+) a b)))"

definition apply_rotary_emb :: "real tensor \<Rightarrow> real tensor \<Rightarrow> nat \<Rightarrow> nat \<Rightarrow> nat \<Rightarrow> complex tensor
    \<Rightarrow> error + real tensor \<times> real tensor" where
  "apply_rotary_emb xq xk n_local_heads hdim seqlen freqs_cis =
     bind_err (freqs_cis_l seqlen freqs_cis)
       (\<lambda>fl. bind_err (freqs_cis_r seqlen freqs_cis)
          (\<lambda>fr. bind_err (rotate seqlen n_local_heads hdim fl fr xq)
             (\<lambda>xq'. bind_err (rotate seqlen n_local_heads hdim fl fr xk)
                (\<lambda>xk'. Inr (xq', xk')))))"

text \<open>
  What a rotary rotation is: the pair \<open>(a, b)\<close> turned by the angle of the unit complex
  number \<open>c\<close>, that is \<open>x * cos + swap(x) * sin\<close> with the two features of the pair
  exchanged in \<open>swap(x)\<close>. The docstring of \<^verbatim>\<open>apply_rotary_emb\<close> (lines 72-82) does
  this with the index \<^verbatim>\<open>[1, 0]\<close>.
\<close>

definition rotate_pair :: "complex \<Rightarrow> real \<times> real \<Rightarrow> real \<times> real" where
  "rotate_pair c p = (fst p * Re c + snd p * (- Im c), snd p * Re c + fst p * Im c)"

section \<open>Linear projections\<close>

text \<open>
  \<^verbatim>\<open>nn.Linear(in_features, out_features, bias=False)\<close>: the weight has shape
  \<open>(out_features, in_features)\<close> and is kept in row-major order. Applied to a tensor whose
  last axis has size \<open>in_features\<close>, it multiplies every row of the input with the
  transposed weight; any other input is refused by torch.
\<close>

record Linear =
  in_features :: nat
  out_features :: nat
  weight :: "real list"

definition dot :: "real list \<Rightarrow> real list \<Rightarrow> real" where
  "dot xs ys = sum_list (map2 (*) xs ys)"

definition row :: "nat \<Rightarrow> nat \<Rightarrow> 'a list \<Rightarrow> 'a list" where
  "row n r xs = take n (drop (r * n) xs)"

definition linear :: "Linear \<Rightarrow> real tensor \<Rightarrow> error + real tensor" where
  "linear L x =
     (if shape x = [] \<or> last (shape x) \<noteq> in_features L then Inl RuntimeError
      else Inr \<lparr>shape = butlast (shape x) @ [out_features L],
                data = concat (map (\<lambda>r. map (\<lambda>j. dot (row (in_features L) r (data x))
                                                   (row (in_features L) j (weight L)))
                                          [0..<out_features L])
                                 [0..<prod_list (butlast (shape x))])\<rparr>)"

section \<open>The encrypted linear-projection bridge\<close>

text \<open>
  TenSEAL is not part of the repository. A decrypted \<^verbatim>\<open>PlainTensor\<close> is its flat
  buffer \<^verbatim>\<open>raw\<close> and its \<^verbatim>\<open>shape\<close>. \<^verbatim>\<open>plainToTorch\<close> (lines 111-112) cuts the
  buffer to the element count of the shape and reshapes it.
\<close>

record plain_tensor =
  raw :: "real list"
  pshape :: "nat list"

definition plainToTorch :: "plain_tensor \<Rightarrow> error + real tensor" where
  "plainToTorch plain =
     (let xs = take (prod_list (pshape plain)) (raw plain)
      in reshape (pshape plain) \<lparr>shape = [length xs], data = xs\<rparr>)"

text \<open>
  \<^verbatim>\<open>encryptedLinearTransform(linear, tensor)\<close>, lines 114-116. Encryption
  \<^verbatim>\<open>ts.ckks_tensor(context, _)\<close> and decryption \<^verbatim>\<open>tensor.decrypt()\<close> are
  the parameters \<open>enc\<close> and \<open>dec\<close>.
\<close>

definition encryptedLinearTransform ::
    "(real tensor \<Rightarrow> 'c) \<Rightarrow> ('c \<Rightarrow> plain_tensor) \<Rightarrow> Linear \<Rightarrow> 'c \<Rightarrow> error + 'c" where
  "encryptedLinearTransform enc dec L t =
     bind_err (plainToTorch (dec t)) (\<lambda>x. bind_err (linear L x) (\<lambda>y. Inr (enc y)))"



text \<open>
  Modelled from the spec: the TenSEAL ciphertext itself, which the repository does not
  contain. Section 3 of the specification describes it as an opaque encoding of a real
  array of known shape that supports addition, multiplication by plaintext and reshape.
  The model is the exact scheme: a ciphertext is the tensor it encrypts, and the
  homomorphic operations act as the plain ones do.
\<close>

datatype ckks = CKKS (plain: "real tensor")

definition ckks_tensor :: "real tensor \<Rightarrow> ckks" where
  "ckks_tensor t = CKKS t"

definition decrypt :: "ckks \<Rightarrow> plain_tensor" where
  "decrypt c = \<lparr>raw = data (plain c), pshape = shape (plain c)\<rparr>"

definition ckks_reshape :: "nat list \<Rightarrow> ckks \<Rightarrow> error + ckks" where
  "ckks_reshape sh c = bind_err (reshape sh (plain c)) (\<lambda>t. Inr (CKKS t))"

definition ckks_apply_rotary_emb :: "ckks \<Rightarrow> ckks \<Rightarrow> nat \<Rightarrow> nat \<Rightarrow> nat \<Rightarrow> complex tensor
    \<Rightarrow> error + ckks \<times> ckks" where
  "ckks_apply_rotary_emb xq xk n_local_heads hdim seqlen freqs_cis =
     bind_err (apply_rotary_emb (plain xq) (plain xk) n_local_heads hdim seqlen freqs_cis)
       (\<lambda>(q, k). Inr (CKKS q, CKKS k))"

section \<open>Slices of the cache, transposition, matrix product, softmax\<close>

text \<open>
  \<^verbatim>\<open>cache[:bsz, lo:hi] = value\<close> for a cache of rank at least 2 and \<open>0 \<le> lo\<close>.
  torch clips the slice to the sizes of the cache; the value must expand to the shape of
  the clipped slice (each of its sizes equal to the target's, or 1), else the assignment
  raises and nothing is written. The cache of the model has rank 4 and the value rank 3;
  a value of higher rank than the target is refused here.
\<close>

definition slice_shape :: "nat list \<Rightarrow> nat \<Rightarrow> nat \<Rightarrow> nat \<Rightarrow> nat list" where
  "slice_shape sh bsz lo hi = min bsz (sh ! 0) # (min hi (sh ! 1) - min lo (sh ! 1)) # drop 2 sh"

definition expandable :: "nat list \<Rightarrow> nat list \<Rightarrow> bool" where
  "expandable src tgt \<longleftrightarrow> length src \<le> length tgt \<and> broadcast_shapes src tgt = Inr tgt"

definition slice_assign :: "'a tensor \<Rightarrow> nat \<Rightarrow> nat \<Rightarrow> nat \<Rightarrow> 'a tensor \<Rightarrow> error + 'a tensor" where
  "slice_assign cache bsz lo hi v =
     (if length (shape cache) < 2 then Inl IndexError
      else if \<not> expandable (shape v) (slice_shape (shape cache) bsz lo hi) then Inl RuntimeError
      else Inr (tabulate (shape cache)
                  (\<lambda>idx. if idx ! 0 < bsz \<and> lo \<le> idx ! 1 \<and> idx ! 1 < hi
                         then bc_at v (idx ! 0 # (idx ! 1 - lo) # drop 2 idx)
                         else elem_at cache idx)))"

text \<open>\<^verbatim>\<open>cache[:bsz, :hi]\<close>, for a cache of rank at least 2.\<close>

definition slice_read :: "'a tensor \<Rightarrow> nat \<Rightarrow> nat \<Rightarrow> error + 'a tensor" where
  "slice_read cache bsz hi =
     (if length (shape cache) < 2 then Inl IndexError
      else Inr (tabulate (slice_shape (shape cache) bsz 0 hi) (\<lambda>idx. elem_at cache idx)))"

text \<open>\<^verbatim>\<open>t.transpose(d1, d2)\<close>.\<close>

definition swap_dims :: "nat \<Rightarrow> nat \<Rightarrow> 'b list \<Rightarrow> 'b list" where
  "swap_dims d1 d2 xs = xs[d1 := xs ! d2, d2 := xs ! d1]"

definition transpose_dims :: "nat \<Rightarrow> nat \<Rightarrow> 'a tensor \<Rightarrow> error + 'a tensor" where
  "transpose_dims d1 d2 t =
     (if d1 < length (shape t) \<and> d2 < length (shape t)
      then Inr (tabulate (swap_dims d1 d2 (shape t)) (\<lambda>idx. elem_at t (swap_dims d1 d2 idx)))
      else Inl IndexError)"

text \<open>
  \<^verbatim>\<open>torch.matmul(a, b)\<close> for operands of rank at least 2, which is what
  \<^verbatim>\<open>Attention.forward\<close> passes: the last two axes are multiplied as matrices, the
  leading axes are broadcast. (torch treats operands of rank 0 and 1 differently; they
  are refused here.)
\<close>

definition matmul :: "real tensor \<Rightarrow> real tensor \<Rightarrow> error + real tensor" where
  "matmul a b =
     (let sa = shape a; sb = shape b; ra = length sa; rb = length sb
      in if ra < 2 \<or> rb < 2 then Inl RuntimeError
         else if sa ! (ra - 1) \<noteq> sb ! (rb - 2) then Inl RuntimeError
         else bind_err (broadcast_shapes (take (ra - 2) sa) (take (rb - 2) sb))
                (\<lambda>batch. Inr (tabulate (batch @ [sa ! (ra - 2), sb ! (rb - 1)])
                   (\<lambda>idx. let bi = take (length batch) idx;
                              i = idx ! length batch;
                              j = idx ! (length batch + 1)
                          in sum_list (map (\<lambda>k. bc_at a (bi @ [i, k]) * bc_at b (bi @ [k, j]))
                                          [0..<sa ! (ra - 1)])))))"

text \<open>
  Scores with the additive mask hold \<open>-inf\<close> entries: \<open>xreal\<close> is a real or \<open>-inf\<close>.
  \<^verbatim>\<open>F.softmax(scores, dim=-1)\<close> gives the entry \<open>x\<close> of a row the weight
  \<open>exp x / sum of exp over the row\<close>, and \<open>exp (-inf) = 0\<close>. (A row of \<open>-inf\<close> only is
  NaN in torch; here the quotient is \<open>0 / 0 = 0\<close>.)
\<close>

datatype xreal = NegInf | Fin real

fun add_x :: "real \<Rightarrow> xreal \<Rightarrow> xreal" where
  "add_x a NegInf = NegInf"
| "add_x a (Fin b) = Fin (a + b)"

fun exp_x :: "xreal \<Rightarrow> real" where
  "exp_x NegInf = 0"
| "exp_x (Fin r) = exp r"

definition softmax_row :: "xreal list \<Rightarrow> real list" where
  "softmax_row xs = map (\<lambda>x. exp_x x / sum_list (map exp_x xs)) xs"

definition softmax :: "xreal tensor \<Rightarrow> real tensor" where
  "softmax t =
     (let n = (if shape t = [] then 1 else last (shape t))
      in \<lparr>shape = shape t,
          data = concat (map (\<lambda>r. softmax_row (row n r (data t)))
                           [0..<prod_list (butlast (shape t))])\<rparr>)"

section \<open>The causal mask\<close>

text \<open>
  \<^verbatim>\<open>Transformer.forward\<close>, lines 292-295: no mask for a single position; otherwise
  \<^verbatim>\<open>torch.full((1, 1, seqlen, seqlen), float("-inf"))\<close> cut by
  \<^verbatim>\<open>torch.triu(mask, diagonal=start_pos + 1)\<close>, which keeps the entry at row \<open>i\<close>,
  column \<open>j\<close> of the last two axes when \<open>j - i \<ge> diagonal\<close> and writes 0 elsewhere.
\<close>

definition full :: "nat list \<Rightarrow> 'a \<Rightarrow> 'a tensor" where
  "full sh v = tabulate sh (\<lambda>idx. v)"

definition triu :: "nat \<Rightarrow> xreal tensor \<Rightarrow> xreal tensor" where
  "triu diagonal t =
     tabulate (shape t)
       (\<lambda>idx. if idx ! (length idx - 2) + diagonal \<le> idx ! (length idx - 1)
              then elem_at t idx else Fin 0)"

definition causal_mask :: "nat \<Rightarrow> nat \<Rightarrow> xreal tensor option" where
  "causal_mask seqlen start_pos =
     (if 1 < seqlen then Some (triu (start_pos + 1) (full [1, 1, seqlen, seqlen] NegInf))
      else None)"

section \<open>The attention layer\<close>

text \<open>
  The state of an \<^verbatim>\<open>Attention\<close> module: the two sizes, the four projections and
  the two caches. \<^verbatim>\<open>Attention.__init__\<close> (lines 119-154) takes the initial weights
  as parameters here (torch draws them at random). \<^verbatim>\<open>args.dim // args.n_heads\<close>
  raises on zero heads; torch refuses a negative size.
\<close>

record Attention =
  n_local_heads :: nat
  head_dim :: nat
  wq :: Linear
  wk :: Linear
  wv :: Linear
  wo :: Linear
  cache_k :: "real tensor"
  cache_v :: "real tensor"

definition Attention_init ::
    "ModelArgs \<Rightarrow> real list \<Rightarrow> real list \<Rightarrow> real list \<Rightarrow> real list \<Rightarrow> error + Attention" where
  "Attention_init args wq0 wk0 wv0 wo0 =
     (if n_heads args = 0 then Inl ZeroDivisionError
      else
        let hdim = dim args div n_heads args
        in if dim args < 0 \<or> n_heads args * hdim < 0 \<or> max_batch_size args < 0
              \<or> max_seq_len args < 0 \<or> n_heads args < 0 \<or> hdim < 0
           then Inl RuntimeError
           else Inr \<lparr>n_local_heads = nat (n_heads args),
                     head_dim = nat hdim,
                     wq = \<lparr>in_features = nat (dim args),
                           out_features = nat (n_heads args * hdim), weight = wq0\<rparr>,
                     wk = \<lparr>in_features = nat (dim args),
                           out_features = nat (n_heads args * hdim), weight = wk0\<rparr>,
                     wv = \<lparr>in_features = nat (dim args),
                           out_features = nat (n_heads args * hdim), weight = wv0\<rparr>,
                     wo = \<lparr>in_features = nat (n_heads args * hdim),
                           out_features = nat (dim args), weight = wo0\<rparr>,
                     cache_k = zeros [nat (max_batch_size args), nat (max_seq_len args),
                                      nat (n_heads args), nat hdim],
                     cache_v = zeros [nat (max_batch_size args), nat (max_seq_len args),
                                      nat (n_heads args), nat hdim]\<rparr>)"

text \<open>
  \<^verbatim>\<open>Attention.forward\<close>, lines 157-187: unpack the shape, encrypt the squeezed
  input, project three times through the bridge, reshape every ciphertext to
  \<open>[seqlen, n_local_heads, head_dim]\<close>, rotate query and key, decrypt.
  The result carries \<open>bsz\<close> and \<open>seqlen\<close> with the three decrypted tensors.
\<close>

definition Attention_qkv :: "Attention \<Rightarrow> real tensor \<Rightarrow> complex tensor
    \<Rightarrow> error + nat \<times> nat \<times> real tensor \<times> real tensor \<times> real tensor" where
  "Attention_qkv A x freqs_cis =
     (case shape x of
        [bsz, seqlen, d] \<Rightarrow>
          (let xe = ckks_tensor (squeeze x);
               sh = [seqlen, n_local_heads A, head_dim A]
           in bind_err (encryptedLinearTransform ckks_tensor decrypt (wq A) xe) (\<lambda>xq.
              bind_err (encryptedLinearTransform ckks_tensor decrypt (wk A) xe) (\<lambda>xk.
              bind_err (encryptedLinearTransform ckks_tensor decrypt (wv A) xe) (\<lambda>xv.
              bind_err (ckks_reshape sh xq) (\<lambda>xq.
              bind_err (ckks_reshape sh xk) (\<lambda>xk.
              bind_err (ckks_reshape sh xv) (\<lambda>xv.
              bind_err (ckks_apply_rotary_emb xq xk (n_local_heads A) (head_dim A) seqlen
                          freqs_cis) (\<lambda>(xq, xk).
              bind_err (plainToTorch (decrypt xq)) (\<lambda>xq.
              bind_err (plainToTorch (decrypt xk)) (\<lambda>xk.
              bind_err (plainToTorch (decrypt xv)) (\<lambda>xv.
              Inr (bsz, seqlen, xq, xk, xv))))))))))))
      | _ \<Rightarrow> Inl ValueError)"

text \<open>
  Lines 197-212, on the caches as they are after the write: read the prefix
  \<open>[:bsz, :start_pos + seqlen]\<close> of both, transpose, multiply, divide by
  \<^verbatim>\<open>math.sqrt(self.head_dim)\<close>, add the mask if there is one, softmax, multiply with
  the values, \<^verbatim>\<open>transpose(1, 2).contiguous().view(bsz, seqlen, -1)\<close>, and the output
  projection.
\<close>

definition scaled_scores :: "real tensor \<Rightarrow> real tensor \<Rightarrow> nat \<Rightarrow> error + real tensor" where
  \<comment> \<open>line 203: \<^verbatim>\<open>torch.matmul(xq, keys.transpose(2, 3)) / math.sqrt(self.head_dim)\<close>\<close>
  "scaled_scores xq keys hdim =
     bind_err (transpose_dims 2 3 keys) (\<lambda>keysT.
     bind_err (matmul xq keysT) (\<lambda>prod.
     Inr (tensor_map (\<lambda>v. v / sqrt (real hdim)) prod)))"

definition add_mask :: "real tensor \<Rightarrow> xreal tensor option \<Rightarrow> error + xreal tensor" where
  \<comment> \<open>lines 204-205: \<^verbatim>\<open>if mask is not None: scores = scores + mask\<close>\<close>
  "add_mask scores msk =
     (case msk of
        None \<Rightarrow> Inr (tensor_map Fin scores)
      | Some m \<Rightarrow> tensor_binop add_x scores m)"

definition Attention_scores :: "Attention \<Rightarrow> nat \<Rightarrow> nat \<Rightarrow> nat \<Rightarrow> real tensor
    \<Rightarrow> error + real tensor \<times> real tensor" where
  \<comment> \<open>lines 197-203: the scores before the mask, and the transposed values\<close>
  "Attention_scores A bsz seqlen start_pos xq =
     bind_err (slice_read (cache_k A) bsz (start_pos + seqlen)) (\<lambda>keys.
     bind_err (slice_read (cache_v A) bsz (start_pos + seqlen)) (\<lambda>vals.
     bind_err (transpose_dims 0 1 xq) (\<lambda>xq.
     bind_err (transpose_dims 1 2 keys) (\<lambda>keys.
     bind_err (transpose_dims 1 2 vals) (\<lambda>vals.
     bind_err (scaled_scores xq keys (head_dim A)) (\<lambda>scores.
     Inr (scores, vals)))))))"

definition Attention_output :: "Attention \<Rightarrow> nat \<Rightarrow> nat \<Rightarrow> nat \<Rightarrow> real tensor
    \<Rightarrow> xreal tensor option \<Rightarrow> error + real tensor" where
  "Attention_output A bsz seqlen start_pos xq msk =
     bind_err (Attention_scores A bsz seqlen start_pos xq) (\<lambda>(scores, vals).
     bind_err (add_mask scores msk) (\<lambda>scores.
     bind_err (matmul (softmax scores) vals) (\<lambda>out.
     bind_err (transpose_dims 1 2 out) (\<lambda>out.
     bind_err (view_infer (bsz * seqlen) (numel out)) (\<lambda>k.
     linear (wo A) \<lparr>shape = [bsz, seqlen, k], data = data out\<rparr>)))))"

text \<open>
  The whole of \<^verbatim>\<open>Attention.forward\<close>. The result is paired with the state of the
  module after the call: an exception leaves the caches as they are at that moment.
  Lines 194-195 write the key cache and then the value cache.
\<close>

definition Attention_forward :: "Attention \<Rightarrow> real tensor \<Rightarrow> nat \<Rightarrow> complex tensor
    \<Rightarrow> xreal tensor option \<Rightarrow> (error + real tensor) \<times> Attention" where
  "Attention_forward A x start_pos freqs_cis msk =
     (case Attention_qkv A x freqs_cis of
        Inl e \<Rightarrow> (Inl e, A)
      | Inr (bsz, seqlen, xq, xk, xv) \<Rightarrow>
          (case slice_assign (cache_k A) bsz start_pos (start_pos + seqlen) xk of
             Inl e \<Rightarrow> (Inl e, A)
           | Inr ck \<Rightarrow>
               (case slice_assign (cache_v A) bsz start_pos (start_pos + seqlen) xv of
                  Inl e \<Rightarrow> (Inl e, A\<lparr>cache_k := ck\<rparr>)
                | Inr cv \<Rightarrow>
                    (let A' = A\<lparr>cache_k := ck, cache_v := cv\<rparr>
                     in (Attention_output A' bsz seqlen start_pos xq msk, A')))))"

text \<open>Whether a call returned a value.\<close>

definition returns :: "error + 'a \<Rightarrow> bool" where
  "returns r = (case r of Inl e \<Rightarrow> False | Inr v \<Rightarrow> True)"

section \<open>Normalisation, feed-forward network, decoder block\<close>

text \<open>
  \<^verbatim>\<open>RMSNorm\<close>, lines 36-47: every row \<open>x\<close> of the last axis becomes
  \<open>x * rsqrt(mean(x^2) + eps)\<close>, and the result is multiplied by the weight.
\<close>

record RMSNorm =
  eps :: real
  norm_weight :: "real tensor"

definition norm_row :: "real \<Rightarrow> real list \<Rightarrow> real list" where
  "norm_row e xs =
     map (\<lambda>v. v * (1 / sqrt (sum_list (map (\<lambda>u. u ^ 2) xs) / real (length xs) + e))) xs"

definition RMSNorm_norm :: "RMSNorm \<Rightarrow> real tensor \<Rightarrow> real tensor" where
  "RMSNorm_norm N x =
     (let n = (if shape x = [] then 1 else last (shape x))
      in \<lparr>shape = shape x,
          data = concat (map (\<lambda>r. norm_row (eps N) (row n r (data x)))
                           [0..<prod_list (butlast (shape x))])\<rparr>)"


text \<open>\<^verbatim>\<open>FeedForward.forward\<close>, line 237: \<open>w2(silu(w1(x)) * w3(x))\<close>.\<close>

record FeedForward =
  w1 :: Linear
  w2 :: Linear
  w3 :: Linear





section \<open>The decoder stack\<close>








section \<open>A small attention layer, for the examples\<close>

text \<open>
  One head of dimension 2, a cache of one batch row and four positions, the identity
  as key, value and output projection and the zero query projection: the module that
  \<open>Attention_init\<close> builds for \<open>dim = 2\<close>, \<open>n_heads = 1\<close>, \<open>max_batch_size = 1\<close>,
  \<open>max_seq_len = 4\<close>. The inputs are a prompt of three positions and one further position.
\<close>

definition example_args :: ModelArgs where
  "example_args =
     \<lparr>dim = 2, n_layers = 1, n_heads = 1, vocab_size = 4, multiple_of = 2,
      norm_eps = 1 / 100000, max_batch_size = 1, max_seq_len = 4\<rparr>"

definition example_attention :: Attention where
  "example_attention =
     \<lparr>n_local_heads = 1, head_dim = 2,
      wq = \<lparr>in_features = 2, out_features = 2, weight = [0, 0, 0, 0]\<rparr>,
      wk = \<lparr>in_features = 2, out_features = 2, weight = [1, 0, 0, 1]\<rparr>,
      wv = \<lparr>in_features = 2, out_features = 2, weight = [1, 0, 0, 1]\<rparr>,
      wo = \<lparr>in_features = 2, out_features = 2, weight = [1, 0, 0, 1]\<rparr>,
      cache_k = zeros [1, 4, 1, 2], cache_v = zeros [1, 4, 1, 2]\<rparr>"

definition example_table :: "complex tensor" where
  "example_table = precompute_freqs_cis_default 2 8"

definition example_prompt :: "real tensor" where
  "example_prompt = \<lparr>shape = [1, 3, 2], data = [1, 2, 3, 4, 5, 6]\<rparr>"

definition example_step :: "real tensor" where
  "example_step = \<lparr>shape = [1, 1, 2], data = [7, 8]\<rparr>"

definition example_after_prompt :: Attention where
  "example_after_prompt =
     snd (Attention_forward example_attention example_prompt 0
            (slice_rows 0 3 example_table) (causal_mask 3 0))"

definition example_after_step :: Attention where
  "example_after_step =
     snd (Attention_forward example_after_prompt example_step 3
            (slice_rows 3 4 example_table) (causal_mask 1 3))"

definition example_pair :: "real tensor" where
  "example_pair = \<lparr>shape = [1, 2, 2], data = [1, 2, 3, 4]\<rparr>"

text \<open>
  A cache of the same shape as those of the example layer that holds 9 at position 3
  and 0 before it.
\<close>

definition example_stale_cache :: "real tensor" where
  "example_stale_cache = tabulate [1, 4, 1, 2] (\<lambda>idx. if idx ! 1 < 3 then 0 else 9)"

text \<open>A batch of two rows with one position each.\<close>

definition example_batch :: "real tensor" where
  "example_batch = \<lparr>shape = [2, 1, 2], data = [1, 2, 3, 4]\<rparr>"








section \<open>Theorems\<close>

lemma floor_div_round_up:
  fixes t m :: int
  assumes "0 < m"
  shows "(t + m - 1) div m = \<lceil>of_int t / (of_int m :: real)\<rceil>"
proof -
  define q where "q = (- t) div m"
  define r where "r = (- t) mod m"
  have "- t = q * m + r"
    unfolding q_def r_def by simp
  then have t: "t = - (q * m) - r"
    by linarith
  have b: "0 \<le> r" "r < m"
    using assms unfolding r_def by simp_all
  have e: "t + m - 1 = (m - 1 - r) + (- q) * m"
    unfolding t by (simp add: algebra_simps)
  have "((m - 1 - r) + (- q) * m) div m = (m - 1 - r) div m + (- q)"
    using assms by (subst div_mult_self1) simp_all
  also have "(m - 1 - r) div m = 0"
    using b by (simp add: div_pos_pos_trivial)
  finally have "(t + m - 1) div m = - ((- t) div m)"
    unfolding e by (simp add: q_def)
  then show ?thesis
    by (simp add: ceiling_divide_eq_div)
qed

text \<open>
  C10. The hidden width of the feed-forward network is the nominal \<open>4 * dim\<close> first
  shrunk to two thirds, truncated to an integer, and only then rounded up to a multiple
  of the alignment constant \<open>multiple_of\<close> (positive, as an alignment is); with the
  default configuration this is 1536, not the 2048 that rounding \<open>4 * dim\<close> up gives.
\<close>

theorem hidden_dim_two_thirds_rounded_up:
  "0 < multiple_of args \<Longrightarrow>
     TransformerBlock_hidden_dim args =
       Inr (multiple_of args *
            \<lceil>of_int (py_int (2 * of_int (4 * dim args) / 3)) / (of_int (multiple_of args) :: real)\<rceil>)
     \<and> TransformerBlock_hidden_dim default_ModelArgs = Inr 1536
     \<and> round_up_to (multiple_of default_ModelArgs) (4 * dim default_ModelArgs) = 2048"
  by (simp add: TransformerBlock_hidden_dim_def FeedForward_hidden_dim_def floor_div_round_up
      default_ModelArgs_def round_up_to_def py_int_def Let_def)

theorem hidden_dim_two_thirds_rounded_up_witness:
  "0 < multiple_of default_ModelArgs
   \<and> TransformerBlock_hidden_dim default_ModelArgs =
       Inr (256 * \<lceil>of_int (py_int (2 * of_int (4 * 512) / 3)) / (256 :: real)\<rceil>)"
  using hidden_dim_two_thirds_rounded_up [of default_ModelArgs]
  by (simp add: default_ModelArgs_def)

subsection \<open>Lists of rows\<close>

lemma length_concat_map_upt:
  "(\<And>k. k < n \<Longrightarrow> length (f k) = m) \<Longrightarrow> length (concat (map f [0..<n])) = n * m"
  by (induction n) simp_all

lemma nth_concat_map_upt:
  "(\<And>k. k < n \<Longrightarrow> length (f k) = m) \<Longrightarrow> p < n \<Longrightarrow> i < m
     \<Longrightarrow> concat (map f [0..<n]) ! (p * m + i) = f p ! i"
proof (induction n)
  case 0
  then show ?case by simp
next
  case (Suc n)
  have len: "length (concat (map f [0..<n])) = n * m"
    using Suc.prems(1) by (simp add: length_concat_map_upt)
  show ?case
  proof (cases "p < n")
    case True
    have "p * m + i < n * m"
    proof -
      have "p * m + i < p * m + m" using Suc.prems(3) by simp
      also have "\<dots> = Suc p * m" by simp
      also have "\<dots> \<le> n * m" using True by (intro mult_le_mono1) simp
      finally show ?thesis .
    qed
    then show ?thesis
      using Suc True by (simp add: nth_append len)
  next
    case False
    then have "p = n" using Suc.prems(2) by simp
    then show ?thesis
      by (simp add: nth_append len)
  qed
qed

subsection \<open>The rotary table\<close>

lemma length_rotary_freqs: "length (rotary_freqs d theta) = d div 2"
  by (simp add: rotary_freqs_def arange_step2_def)

lemma nth_rotary_freqs:
  "i < d div 2 \<Longrightarrow> rotary_freqs d theta ! i = 1 / (theta powr (real (2 * i) / real d))"
  by (simp add: rotary_freqs_def arange_step2_def)

lemma polar_one: "polar 1 a = cis a"
  by (simp add: polar_def complex_eq_iff)

lemma shape_precompute_freqs_cis:
  "shape (precompute_freqs_cis d endp theta) = [endp, d div 2]"
  by (simp add: precompute_freqs_cis_def Let_def length_rotary_freqs)

lemma freqs_cis_entry:
  assumes "p < endp" "i < d div 2"
  shows "elem_at (precompute_freqs_cis d endp theta) [p, i]
           = cis (real p / (theta powr (real (2 * i) / real d)))"
proof -
  let ?row = "\<lambda>p. map (polar 1) (map (\<lambda>f. real p * f) (rotary_freqs d theta))"
  have d: "data (precompute_freqs_cis d endp theta) = concat (map ?row [0..<endp])"
    by (simp add: precompute_freqs_cis_def Let_def comp_def)
  have "concat (map ?row [0..<endp]) ! (p * (d div 2) + i) = ?row p ! i"
    using assms by (intro nth_concat_map_upt) (simp_all add: length_rotary_freqs)
  also have "\<dots> = cis (real p / (theta powr (real (2 * i) / real d)))"
    using assms by (simp add: length_rotary_freqs nth_rotary_freqs polar_one)
  finally show ?thesis
    by (simp add: elem_at_def d shape_precompute_freqs_cis)
qed

lemma Transformer_freqs_cis_ok:
  assumes "0 < n_heads args" "0 \<le> dim args" "0 \<le> max_seq_len args"
  shows "Transformer_freqs_cis args
            = Inr (precompute_freqs_cis_default (nat (dim args div n_heads args))
                     (nat (max_seq_len args * 2)))"
proof -
  have "0 \<le> dim args div n_heads args"
    using assms by (simp add: pos_imp_zdiv_nonneg_iff)
  then show ?thesis
    using assms by (simp add: Transformer_freqs_cis_def)
qed

text \<open>
  C6. For a positive base \<open>theta\<close>, the table built by \<open>precompute_freqs_cis\<close> has one
  row per position \<open>p < endp\<close> and one column per frequency index \<open>i < d div 2\<close>; its
  entry at \<open>(p, i)\<close> is the complex number of magnitude 1 at the angle
  \<open>p / theta ^ (2 i / d)\<close>. The base defaults to 10000, and the model builds the table
  for the head dimension \<open>dim // n_heads\<close> and twice \<open>max_seq_len\<close> positions.
\<close>

theorem rotary_table_entries:
  "0 < theta \<Longrightarrow> p < endp \<Longrightarrow> i < d div 2 \<Longrightarrow>
     shape (precompute_freqs_cis d endp theta) = [endp, d div 2]
     \<and> elem_at (precompute_freqs_cis d endp theta) [p, i]
         = cis (real p / (theta powr (real (2 * i) / real d)))
     \<and> cmod (elem_at (precompute_freqs_cis d endp theta) [p, i]) = 1
     \<and> precompute_freqs_cis_default d endp = precompute_freqs_cis d endp 10000
     \<and> (0 < n_heads args \<and> 0 \<le> dim args \<and> 0 \<le> max_seq_len args \<longrightarrow>
          Transformer_freqs_cis args
            = Inr (precompute_freqs_cis_default (nat (dim args div n_heads args))
                     (nat (max_seq_len args * 2))))"
proof (intro conjI impI)
  assume h: "p < endp" "i < d div 2"
  show "shape (precompute_freqs_cis d endp theta) = [endp, d div 2]"
    by (rule shape_precompute_freqs_cis)
  show e: "elem_at (precompute_freqs_cis d endp theta) [p, i]
         = cis (real p / (theta powr (real (2 * i) / real d)))"
    using h by (rule freqs_cis_entry)
  show "cmod (elem_at (precompute_freqs_cis d endp theta) [p, i]) = 1"
    unfolding e by simp
  show "precompute_freqs_cis_default d endp = precompute_freqs_cis d endp 10000"
    by (simp add: precompute_freqs_cis_default_def)
next
  assume "0 < n_heads args \<and> 0 \<le> dim args \<and> 0 \<le> max_seq_len args"
  then show "Transformer_freqs_cis args
            = Inr (precompute_freqs_cis_default (nat (dim args div n_heads args))
                     (nat (max_seq_len args * 2)))"
    by (simp add: Transformer_freqs_cis_ok)
qed

theorem rotary_table_entries_witness:
  "(0::real) < 10000 \<and> (1::nat) < 2 \<and> (0::nat) < 2 div 2
   \<and> elem_at (precompute_freqs_cis 2 2 10000) [1, 0] = cis 1
   \<and> Transformer_freqs_cis default_ModelArgs = Inr (precompute_freqs_cis_default 64 2048)"
  using rotary_table_entries [of 10000 1 2 0 2 default_ModelArgs]
  by (simp add: default_ModelArgs_def)

subsection \<open>The rotary rotation\<close>

lemma sin_one_gt_half: "1 / 2 < sin (1::real)"
proof -
  have "sin (pi / 6) < sin (1::real)"
    using pi_ge_two pi_less_4 by (intro sin_monotone_2pi) simp_all
  then show ?thesis by (simp add: sin_30)
qed

text \<open>
  C1, at the input of the claim: one head of dimension 2, the unit vector \<open>(1, 0)\<close> as
  query and key, and the table row of position 1, whose angle is 1.
  \<open>apply_rotary_emb\<close> returns \<open>(cos 1 - sin 1, 0)\<close> for both, because
  \<^verbatim>\<open>slice(0, 2)\<close> leaves every pair in its order where the rotation exchanges its two
  features. The rotation of \<open>(1, 0)\<close> by this angle is \<open>(cos 1, sin 1)\<close>; the second
  feature is off by \<open>sin 1\<close>, more than \<open>1/2\<close>.
\<close>

theorem apply_rotary_emb_unit_vector:
  "apply_rotary_emb \<lparr>shape = [1, 1, 2], data = [1, 0]\<rparr> \<lparr>shape = [1, 1, 2], data = [1, 0]\<rparr>
       1 2 1 (slice_rows 1 2 (precompute_freqs_cis_default 2 2))
     = Inr (\<lparr>shape = [1, 1, 2], data = [cos 1 - sin 1, 0]\<rparr>,
            \<lparr>shape = [1, 1, 2], data = [cos 1 - sin 1, 0]\<rparr>)
   \<and> rotate_pair (elem_at (precompute_freqs_cis_default 2 2) [1, 0]) (1, 0) = (cos 1, sin 1)
   \<and> 1 / 2 < \<bar>sin 1 - (0::real)\<bar>"
proof (intro conjI)
  show "apply_rotary_emb \<lparr>shape = [1, 1, 2], data = [1, 0]\<rparr> \<lparr>shape = [1, 1, 2], data = [1, 0]\<rparr>
       1 2 1 (slice_rows 1 2 (precompute_freqs_cis_default 2 2))
     = Inr (\<lparr>shape = [1, 1, 2], data = [cos 1 - sin 1, 0]\<rparr>,
            \<lparr>shape = [1, 1, 2], data = [cos 1 - sin 1, 0]\<rparr>)"
    by (simp add: apply_rotary_emb_def freqs_cis_l_def freqs_cis_r_def slice_rows_def
        precompute_freqs_cis_default_def precompute_freqs_cis_def rotary_freqs_def
        arange_step2_def Let_def bind_err_def view_infer_def numel_def rotate_def
        pair_slice_def reshape_def tensor_binop_def broadcast_shapes_def pad_shape_def
        broadcast_dim_def tabulate_def bc_at_def polar_def upt_conv_Cons)
  show "rotate_pair (elem_at (precompute_freqs_cis_default 2 2) [1, 0]) (1, 0) = (cos 1, sin 1)"
    by (simp add: precompute_freqs_cis_default_def freqs_cis_entry rotate_pair_def)
  show "1 / 2 < \<bar>sin 1 - (0::real)\<bar>"
    using sin_one_gt_half by simp
qed

subsection \<open>Tensors: building and reading\<close>

lemma length_tab: "length (tab sh f) = prod_list sh"
proof (induction sh arbitrary: f)
  case Nil
  then show ?case by simp
next
  case (Cons d ds)
  show ?case
    by (simp add: length_concat_map_upt [where m = "prod_list ds"] Cons.IH)
qed

lemma valid_index_Cons:
  "valid_index (d # ds) idx \<longleftrightarrow> (\<exists>i is. idx = i # is \<and> i < d \<and> valid_index ds is)"
  by (cases idx) (simp_all add: valid_index_def)

lemma valid_index_Nil: "valid_index [] idx \<longleftrightarrow> idx = []"
  by (simp add: valid_index_def)

lemma valid_index_length: "valid_index sh idx \<Longrightarrow> length idx = length sh"
  by (simp add: valid_index_def list_all2_lengthD)


lemma flat_index_less: "valid_index sh idx \<Longrightarrow> flat_index sh idx < prod_list sh"
proof (induction sh arbitrary: idx)
  case Nil
  then show ?case by (simp add: valid_index_Nil)
next
  case (Cons d ds)
  then obtain i "is" where idx: "idx = i # is" "i < d" "valid_index ds is"
    by (auto simp: valid_index_Cons)
  have "flat_index ds is < prod_list ds"
    using Cons.IH idx(3) by simp
  then have "i * prod_list ds + flat_index ds is < i * prod_list ds + prod_list ds"
    by simp
  also have "\<dots> = Suc i * prod_list ds" by simp
  also have "\<dots> \<le> d * prod_list ds"
    using idx(2) by (intro mult_le_mono1) simp
  finally show ?case by (simp add: idx(1))
qed

lemma nth_tab: "valid_index sh idx \<Longrightarrow> tab sh f ! flat_index sh idx = f idx"
proof (induction sh arbitrary: idx f)
  case Nil
  then show ?case by (simp add: valid_index_Nil)
next
  case (Cons d ds)
  then obtain i "is" where idx: "idx = i # is" "i < d" "valid_index ds is"
    by (auto simp: valid_index_Cons)
  have "concat (map (\<lambda>i. tab ds (\<lambda>idx. f (i # idx))) [0..<d]) ! (i * prod_list ds + flat_index ds is)
          = tab ds (\<lambda>idx. f (i # idx)) ! flat_index ds is"
    using idx by (intro nth_concat_map_upt) (simp_all add: length_tab flat_index_less)
  then show ?case
    using Cons.IH [OF idx(3)] by (simp add: idx(1))
qed

lemma elem_at_tabulate: "valid_index sh idx \<Longrightarrow> elem_at (tabulate sh f) idx = f idx"
  by (simp add: elem_at_def tabulate_def nth_tab)

lemma shape_tabulate: "shape (tabulate sh f) = sh"
  by (simp add: tabulate_def)


lemma tab_cong: "(\<And>idx. valid_index sh idx \<Longrightarrow> f idx = g idx) \<Longrightarrow> tab sh f = tab sh g"
proof (induction sh arbitrary: f g)
  case Nil
  then show ?case by (simp add: valid_index_Nil)
next
  case (Cons d ds)
  have "tab ds (\<lambda>idx. f (i # idx)) = tab ds (\<lambda>idx. g (i # idx))" if "i < d" for i
    using that by (intro Cons.IH Cons.prems) (simp add: valid_index_Cons)
  then show ?case
    by (auto intro!: arg_cong [where f = concat] map_cong)
qed




subsection \<open>Errors, broadcasting, slices of the cache\<close>

lemma bind_err_simps [simp]:
  "bind_err (Inl e) f = Inl e" "bind_err (Inr x) f = f x"
  by (simp_all add: bind_err_def)

lemma bind_err_eq_Inr:
  "bind_err m f = Inr y \<longleftrightarrow> (\<exists>x. m = Inr x \<and> f x = Inr y)"
  by (cases m) simp_all

lemma broadcast_dim_same [simp]: "broadcast_dim a a = Inr a"
  by (simp add: broadcast_dim_def)

lemma broadcast_dim_one_left [simp]: "broadcast_dim (Suc 0) b = Inr b"
  by (simp add: broadcast_dim_def)

lemma broadcast_dim_one_right [simp]: "broadcast_dim a (Suc 0) = Inr a"
  by (simp add: broadcast_dim_def)

lemma broadcast_shapes_3_4:
  "broadcast_shapes [a1, a2, a3] [b0, b1, b2, b3]
     = bind_err (broadcast_dim a1 b1) (\<lambda>c1. bind_err (broadcast_dim a2 b2)
         (\<lambda>c2. bind_err (broadcast_dim a3 b3) (\<lambda>c3. Inr [b0, c1, c2, c3])))"
  by (simp add: broadcast_shapes_def pad_shape_def bind_err_def split: sum.splits)

lemma expandable_3_4:
  "expandable [n, H, D] [b, n, H, D]"
  by (simp add: expandable_def broadcast_shapes_3_4)

lemma expandable_one_3_4:
  "expandable [Suc 0, H, D] [b, t, H, D]"
  by (simp add: expandable_def broadcast_shapes_3_4)


lemma bc_at_rank3_in_4:
  "shape v = [n, H, D] \<Longrightarrow> p < n \<Longrightarrow> h < H \<Longrightarrow> d < D
     \<Longrightarrow> bc_at v [b, p, h, d] = elem_at v [p, h, d]"
  by (auto simp: bc_at_def elem_at_def pad_shape_def)

lemma valid_index_4:
  "valid_index [B, S, H, D] [b, p, h, d] \<longleftrightarrow> b < B \<and> p < S \<and> h < H \<and> d < D"
  by (simp add: valid_index_def)

lemma shape_slice_assign:
  "slice_assign c bsz lo hi v = Inr c' \<Longrightarrow> shape c' = shape c"
  by (auto simp: slice_assign_def shape_tabulate split: if_splits)

lemma slice_assign_Inr:
  "shape c = [B, S, H, D] \<Longrightarrow> expandable (shape v) (slice_shape [B, S, H, D] bsz lo hi)
     \<Longrightarrow> slice_assign c bsz lo hi v
          = Inr (tabulate [B, S, H, D]
                  (\<lambda>idx. if idx ! 0 < bsz \<and> lo \<le> idx ! 1 \<and> idx ! 1 < hi
                         then bc_at v (idx ! 0 # (idx ! 1 - lo) # drop 2 idx)
                         else elem_at c idx))"
  by (simp add: slice_assign_def)

lemma elem_at_slice_assign:
  assumes "slice_assign c bsz lo hi v = Inr c'" "shape c = [B, S, H, D]"
    "b < B" "p < S" "h < H" "d < D"
  shows "elem_at c' [b, p, h, d]
           = (if b < bsz \<and> lo \<le> p \<and> p < hi then bc_at v [b, p - lo, h, d]
              else elem_at c [b, p, h, d])"
  using assms
  by (auto simp: slice_assign_def elem_at_tabulate valid_index_4 split: if_splits)




lemma shape_reshape: "reshape sh t = Inr t' \<Longrightarrow> shape t' = sh"
  by (auto simp: reshape_def split: if_splits)

lemma shape_plainToTorch: "plainToTorch p = Inr t \<Longrightarrow> shape t = pshape p"
  by (auto simp: plainToTorch_def Let_def dest: shape_reshape)







lemma Attention_forward_qkv_error:
  "Attention_qkv A x fc = Inl e \<Longrightarrow> Attention_forward A x sp fc m = (Inl e, A)"
  by (simp add: Attention_forward_def)

lemma Attention_forward_written:
  assumes "Attention_qkv A x fc = Inr (bsz, s, xq, xk, xv)"
    "slice_assign (cache_k A) bsz sp (sp + s) xk = Inr ck"
    "slice_assign (cache_v A) bsz sp (sp + s) xv = Inr cv"
  shows "Attention_forward A x sp fc m
           = (Attention_output (A\<lparr>cache_k := ck, cache_v := cv\<rparr>) bsz s sp xq m,
              A\<lparr>cache_k := ck, cache_v := cv\<rparr>)"
  using assms by (simp add: Attention_forward_def Let_def)

subsection \<open>The key/value cache\<close>

lemma slice_shape_4: 
  "slice_shape [B, S, H, D] bsz lo hi = [min bsz B, min hi S - min lo S, H, D]"
  by (simp add: slice_shape_def)

lemma slice_read_4:
  "shape c = [B, S, H, D]
     \<Longrightarrow> slice_read c bsz hi = Inr (tabulate [min bsz B, min hi S, H, D] (elem_at c))"
  by (simp add: slice_read_def slice_shape_4)

lemmas eval_defs = Attention_qkv_def Let_def squeeze_def ckks_tensor_def encryptedLinearTransform_def
  plainToTorch_def decrypt_def reshape_def numel_def linear_def row_def dot_def ckks_reshape_def
  ckks_apply_rotary_emb_def apply_rotary_emb_def freqs_cis_l_def freqs_cis_r_def slice_rows_def
  precompute_freqs_cis_default_def precompute_freqs_cis_def rotary_freqs_def arange_step2_def
  view_infer_def rotate_def pair_slice_def tensor_binop_def broadcast_shapes_def pad_shape_def
  broadcast_dim_def tabulate_def bc_at_def polar_def upt_conv_Cons

lemma example_init:
  "Attention_init example_args [0, 0, 0, 0] [1, 0, 0, 1] [1, 0, 0, 1] [1, 0, 0, 1]
     = Inr example_attention"
  by (simp add: Attention_init_def example_args_def example_attention_def)

lemma example_qkv_prompt:
  "Attention_qkv example_attention example_prompt (slice_rows 0 3 example_table)
     = Inr (1, 3, \<lparr>shape = [3, 1, 2], data = [0, 0, 0, 0, 0, 0]\<rparr>,
            \<lparr>shape = [3, 1, 2],
             data = [1, 2, 3 * cos 1 - 3 * sin 1, 4 * cos 1 + 4 * sin 1,
                     5 * cos 2 - 5 * sin 2, 6 * cos 2 + 6 * sin 2]\<rparr>,
            \<lparr>shape = [3, 1, 2], data = [1, 2, 3, 4, 5, 6]\<rparr>)"
  by (simp add: example_attention_def example_prompt_def example_table_def eval_defs)

lemma example_qkv_step:
  "Attention_qkv example_attention example_step (slice_rows 3 4 example_table)
     = Inr (1, 1, \<lparr>shape = [1, 1, 2], data = [0, 0]\<rparr>,
            \<lparr>shape = [1, 1, 2], data = [7 * cos 3 - 7 * sin 3, 8 * cos 3 + 8 * sin 3]\<rparr>,
            \<lparr>shape = [1, 1, 2], data = [7, 8]\<rparr>)"
  by (simp add: example_attention_def example_step_def example_table_def eval_defs)

lemma Attention_qkv_caches:
  "Attention_qkv (A\<lparr>cache_k := ck, cache_v := cv\<rparr>) x fc = Attention_qkv A x fc"
  "Attention_qkv (A\<lparr>cache_k := ck\<rparr>) x fc = Attention_qkv A x fc"
  by (simp_all add: Attention_qkv_def split: list.splits)

lemma Attention_forward_state:
  "snd (Attention_forward A x sp fc m) = A
   \<or> (\<exists>ck. snd (Attention_forward A x sp fc m) = A\<lparr>cache_k := ck\<rparr>)
   \<or> (\<exists>ck cv. snd (Attention_forward A x sp fc m) = A\<lparr>cache_k := ck, cache_v := cv\<rparr>)"
  by (auto simp: Attention_forward_def Let_def split: sum.splits prod.splits)

lemma Attention_qkv_after_forward:
  "Attention_qkv (snd (Attention_forward A x sp fc m)) x' fc' = Attention_qkv A x' fc'"
  using Attention_forward_state [of A x sp fc m] by (auto simp: Attention_qkv_caches)

lemma valid_index_4E:
  assumes "valid_index [B, S, H, D] idx"
  obtains b p h d where "idx = [b, p, h, d]" "b < B" "p < S" "h < H" "d < D"
  using assms by (auto simp: valid_index_def list_all2_Cons2)

lemma slice_read_agree:
  assumes "shape c = [B, S, H, D]" "shape c' = [B, S, H, D]"
    and "\<And>b p h d. b < B \<Longrightarrow> p < S \<Longrightarrow> p < n \<Longrightarrow> h < H \<Longrightarrow> d < D
            \<Longrightarrow> elem_at c' [b, p, h, d] = elem_at c [b, p, h, d]"
  shows "slice_read c' bsz n = slice_read c bsz n"
proof -
  have "tab [min bsz B, min n S, H, D] (elem_at c') = tab [min bsz B, min n S, H, D] (elem_at c)"
  proof (rule tab_cong)
    fix idx assume "valid_index [min bsz B, min n S, H, D] idx"
    then obtain b p h d where "idx = [b, p, h, d]" "b < min bsz B" "p < min n S" "h < H" "d < D"
      by (rule valid_index_4E)
    then show "elem_at c' idx = elem_at c idx"
      using assms(3) [of b p h d] by simp
  qed
  then show ?thesis
    by (simp add: slice_read_4 [OF assms(1)] slice_read_4 [OF assms(2)] tabulate_def)
qed

lemma Attention_output_read_frame:
  assumes "shape (cache_k A) = [B, S, H, D]" "shape (cache_v A) = [B, S, H, D]"
    and "shape ck' = [B, S, H, D]" "shape cv' = [B, S, H, D]"
    and "\<And>b p h d. b < B \<Longrightarrow> p < S \<Longrightarrow> p < sp + s \<Longrightarrow> h < H \<Longrightarrow> d < D
            \<Longrightarrow> elem_at ck' [b, p, h, d] = elem_at (cache_k A) [b, p, h, d]"
    and "\<And>b p h d. b < B \<Longrightarrow> p < S \<Longrightarrow> p < sp + s \<Longrightarrow> h < H \<Longrightarrow> d < D
            \<Longrightarrow> elem_at cv' [b, p, h, d] = elem_at (cache_v A) [b, p, h, d]"
  shows "Attention_scores (A\<lparr>cache_k := ck', cache_v := cv'\<rparr>) bsz s sp xq
           = Attention_scores A bsz s sp xq"
    and "Attention_output (A\<lparr>cache_k := ck', cache_v := cv'\<rparr>) bsz s sp xq m
           = Attention_output A bsz s sp xq m"
proof -
  have k: "slice_read ck' bsz (sp + s) = slice_read (cache_k A) bsz (sp + s)"
    using assms(1,3,5) by (rule slice_read_agree)
  have v: "slice_read cv' bsz (sp + s) = slice_read (cache_v A) bsz (sp + s)"
    using assms(2,4,6) by (rule slice_read_agree)
  show sc: "Attention_scores (A\<lparr>cache_k := ck', cache_v := cv'\<rparr>) bsz s sp xq
           = Attention_scores A bsz s sp xq"
    by (simp add: Attention_scores_def k v)
  show "Attention_output (A\<lparr>cache_k := ck', cache_v := cv'\<rparr>) bsz s sp xq m
           = Attention_output A bsz s sp xq m"
    by (simp add: Attention_output_def sc)
qed

lemma Attention_forward_read_frame:
  assumes sk: "shape (cache_k A) = [B, S, H, D]" and sv: "shape (cache_v A) = [B, S, H, D]"
    and sk': "shape ck' = [B, S, H, D]" and sv': "shape cv' = [B, S, H, D]"
    and ak: "\<And>b p h d. b < B \<Longrightarrow> p < S \<Longrightarrow> p < sp + s \<Longrightarrow> h < H \<Longrightarrow> d < D
            \<Longrightarrow> elem_at ck' [b, p, h, d] = elem_at (cache_k A) [b, p, h, d]"
    and av: "\<And>b p h d. b < B \<Longrightarrow> p < S \<Longrightarrow> p < sp + s \<Longrightarrow> h < H \<Longrightarrow> d < D
            \<Longrightarrow> elem_at cv' [b, p, h, d] = elem_at (cache_v A) [b, p, h, d]"
    and q: "Attention_qkv A x fc = Inr (bsz, s, xq, xk, xv)"
    and wk: "slice_assign (cache_k A) bsz sp (sp + s) xk = Inr ck"
    and wv: "slice_assign (cache_v A) bsz sp (sp + s) xv = Inr cv"
  shows "fst (Attention_forward (A\<lparr>cache_k := ck', cache_v := cv'\<rparr>) x sp fc m)
           = fst (Attention_forward A x sp fc m)"
proof -
  let ?A' = "A\<lparr>cache_k := ck', cache_v := cv'\<rparr>"
  have q': "Attention_qkv ?A' x fc = Inr (bsz, s, xq, xk, xv)"
    using q by (simp add: Attention_qkv_caches)
  have ek: "expandable (shape xk) (slice_shape [B, S, H, D] bsz sp (sp + s))"
    using wk sk by (auto simp: slice_assign_def split: if_splits)
  have ev: "expandable (shape xv) (slice_shape [B, S, H, D] bsz sp (sp + s))"
    using wv sv by (auto simp: slice_assign_def split: if_splits)
  obtain ck2 cv2 where w': "slice_assign (cache_k ?A') bsz sp (sp + s) xk = Inr ck2"
      "slice_assign (cache_v ?A') bsz sp (sp + s) xv = Inr cv2"
    using slice_assign_Inr [OF sk' ek] slice_assign_Inr [OF sv' ev] by simp
  have w'': "slice_assign ck' bsz sp (sp + s) xk = Inr ck2"
      "slice_assign cv' bsz sp (sp + s) xv = Inr cv2"
    using w' by simp_all
  have f: "Attention_forward A x sp fc m
             = (Attention_output (A\<lparr>cache_k := ck, cache_v := cv\<rparr>) bsz s sp xq m,
                A\<lparr>cache_k := ck, cache_v := cv\<rparr>)"
    using q wk wv by (rule Attention_forward_written)
  have f': "Attention_forward ?A' x sp fc m
             = (Attention_output (?A'\<lparr>cache_k := ck2, cache_v := cv2\<rparr>) bsz s sp xq m,
                ?A'\<lparr>cache_k := ck2, cache_v := cv2\<rparr>)"
    using q' w' by (rule Attention_forward_written)
  let ?W = "A\<lparr>cache_k := ck, cache_v := cv\<rparr>"
  have sW: "shape (cache_k ?W) = [B, S, H, D]" "shape (cache_v ?W) = [B, S, H, D]"
    using shape_slice_assign [OF wk] shape_slice_assign [OF wv] sk sv by simp_all
  have s2: "shape ck2 = [B, S, H, D]" "shape cv2 = [B, S, H, D]"
    using shape_slice_assign [OF w''(1)] shape_slice_assign [OF w''(2)] sk' sv' by simp_all
  have a2k: "elem_at ck2 [b, p, h, d] = elem_at (cache_k ?W) [b, p, h, d]"
    if "b < B" "p < S" "p < sp + s" "h < H" "d < D" for b p h d
    using elem_at_slice_assign [OF w''(1) sk' that(1,2,4,5)]
      elem_at_slice_assign [OF wk sk that(1,2,4,5)] ak [OF that]
    by simp
  have a2v: "elem_at cv2 [b, p, h, d] = elem_at (cache_v ?W) [b, p, h, d]"
    if "b < B" "p < S" "p < sp + s" "h < H" "d < D" for b p h d
    using elem_at_slice_assign [OF w''(2) sv' that(1,2,4,5)]
      elem_at_slice_assign [OF wv sv that(1,2,4,5)] av [OF that]
    by simp
  have "Attention_output (?W\<lparr>cache_k := ck2, cache_v := cv2\<rparr>) bsz s sp xq m
          = Attention_output ?W bsz s sp xq m"
    using sW s2 a2k a2v by (rule Attention_output_read_frame(2))
  moreover have "?A'\<lparr>cache_k := ck2, cache_v := cv2\<rparr> = ?W\<lparr>cache_k := ck2, cache_v := cv2\<rparr>"
    by simp
  ultimately show ?thesis
    by (simp add: f f')
qed

text \<open>
  C5. Two calls of \<open>Attention_forward\<close> on one layer whose caches hold at least four
  positions: the first at \<open>start_pos = 0\<close> with three positions, the second at
  \<open>start_pos = 3\<close> with one.
  \<^item> The second call changes no cache entry except those at position 3, in any batch row;
    in particular the entries at positions 0, 1, 2 are as the first call left them.
  \<^item> In the batch rows in use, the entries at positions 0, 1, 2 after the first call are
    its keys and values, and the entry at position 3 after the second call is the key
    and value of the second call.
  \<^item> Nothing at or beyond \<open>start_pos + seqlen\<close> is read back: the result of the second
    call is the same for any caches that agree with the actual ones at positions 0 to 3,
    and the result of the first call is the same for any caches that agree with the
    actual ones at positions 0 to 2, whatever they hold at later positions.
\<close>

theorem kv_cache_two_calls:
  assumes "shape (cache_k A) = [B, S, H, D]" and "shape (cache_v A) = [B, S, H, D]"
    and "4 \<le> S"
    and "Attention_qkv A x1 fc1 = Inr (bsz, 3, xq1, xk1, xv1)"
    and "shape xk1 = [3, H, D]" and "shape xv1 = [3, H, D]"
    and "A1 = snd (Attention_forward A x1 0 fc1 m1)"
    and "Attention_qkv A1 x2 fc2 = Inr (bsz, 1, xq2, xk2, xv2)"
    and "shape xk2 = [1, H, D]" and "shape xv2 = [1, H, D]"
    and "A2 = snd (Attention_forward A1 x2 3 fc2 m2)"
    and "b < B" and "h < H" and "d < D"
  shows "(\<forall>p < S. p \<noteq> 3 \<longrightarrow>
            elem_at (cache_k A2) [b, p, h, d] = elem_at (cache_k A1) [b, p, h, d]
          \<and> elem_at (cache_v A2) [b, p, h, d] = elem_at (cache_v A1) [b, p, h, d])
       \<and> (b < bsz \<longrightarrow>
            (\<forall>p < 3. elem_at (cache_k A1) [b, p, h, d] = elem_at xk1 [p, h, d]
                    \<and> elem_at (cache_v A1) [b, p, h, d] = elem_at xv1 [p, h, d])
          \<and> elem_at (cache_k A2) [b, 3, h, d] = elem_at xk2 [0, h, d]
          \<and> elem_at (cache_v A2) [b, 3, h, d] = elem_at xv2 [0, h, d])
       \<and> (\<forall>ck' cv'. shape ck' = [B, S, H, D] \<and> shape cv' = [B, S, H, D]
            \<and> (\<forall>b' p' h' d'. b' < B \<and> p' < 4 \<and> h' < H \<and> d' < D \<longrightarrow>
                   elem_at ck' [b', p', h', d'] = elem_at (cache_k A1) [b', p', h', d']
                 \<and> elem_at cv' [b', p', h', d'] = elem_at (cache_v A1) [b', p', h', d'])
            \<longrightarrow> fst (Attention_forward (A1\<lparr>cache_k := ck', cache_v := cv'\<rparr>) x2 3 fc2 m2)
                  = fst (Attention_forward A1 x2 3 fc2 m2))
       \<and> (\<forall>ck' cv'. shape ck' = [B, S, H, D] \<and> shape cv' = [B, S, H, D]
            \<and> (\<forall>b' p' h' d'. b' < B \<and> p' < 3 \<and> h' < H \<and> d' < D \<longrightarrow>
                   elem_at ck' [b', p', h', d'] = elem_at (cache_k A) [b', p', h', d']
                 \<and> elem_at cv' [b', p', h', d'] = elem_at (cache_v A) [b', p', h', d'])
            \<longrightarrow> fst (Attention_forward (A\<lparr>cache_k := ck', cache_v := cv'\<rparr>) x1 0 fc1 m1)
                  = fst (Attention_forward A x1 0 fc1 m1))"
proof -
  \<comment> \<open>first call\<close>
  have e1: "expandable (shape xk1) (slice_shape [B, S, H, D] bsz 0 (0 + 3))"
           "expandable (shape xv1) (slice_shape [B, S, H, D] bsz 0 (0 + 3))"
    using assms(3,5,6) by (simp_all add: slice_shape_4 expandable_3_4)
  obtain ck1 cv1 where w1:
    "slice_assign (cache_k A) bsz 0 (0 + 3) xk1 = Inr ck1"
    "slice_assign (cache_v A) bsz 0 (0 + 3) xv1 = Inr cv1"
    using slice_assign_Inr [OF assms(1) e1(1)] slice_assign_Inr [OF assms(2) e1(2)] by simp
  have A1: "A1 = A\<lparr>cache_k := ck1, cache_v := cv1\<rparr>"
    using Attention_forward_written [OF assms(4) w1] assms(7) by simp
  have s1: "shape (cache_k A1) = [B, S, H, D]" "shape (cache_v A1) = [B, S, H, D]"
    using A1 shape_slice_assign [OF w1(1)] shape_slice_assign [OF w1(2)] assms(1,2) by simp_all
  \<comment> \<open>second call\<close>
  have e2: "expandable (shape xk2) (slice_shape [B, S, H, D] bsz 3 (3 + 1))"
           "expandable (shape xv2) (slice_shape [B, S, H, D] bsz 3 (3 + 1))"
    using assms(3,9,10) by (simp_all add: slice_shape_4 expandable_one_3_4)
  obtain ck2 cv2 where w2:
    "slice_assign (cache_k A1) bsz 3 (3 + 1) xk2 = Inr ck2"
    "slice_assign (cache_v A1) bsz 3 (3 + 1) xv2 = Inr cv2"
    using slice_assign_Inr [OF s1(1) e2(1)] slice_assign_Inr [OF s1(2) e2(2)] by simp
  have A2: "A2 = A1\<lparr>cache_k := ck2, cache_v := cv2\<rparr>"
    using Attention_forward_written [OF assms(8) w2] assms(11) by simp
  have frame: "elem_at (cache_k A2) [b, p, h, d] = elem_at (cache_k A1) [b, p, h, d]
             \<and> elem_at (cache_v A2) [b, p, h, d] = elem_at (cache_v A1) [b, p, h, d]"
    if "p < S" "p \<noteq> 3" for p
    using elem_at_slice_assign [OF w2(1) s1(1) assms(12) that(1) assms(13,14)]
      elem_at_slice_assign [OF w2(2) s1(2) assms(12) that(1) assms(13,14)] that(2) A2
    by simp
  have old: "elem_at (cache_k A1) [b, p, h, d] = elem_at xk1 [p, h, d]
             \<and> elem_at (cache_v A1) [b, p, h, d] = elem_at xv1 [p, h, d]"
    if "b < bsz" "p < 3" for p
  proof -
    have pS: "p < S" using that assms(3) by simp
    show ?thesis
      using elem_at_slice_assign [OF w1(1) assms(1) assms(12) pS assms(13,14)]
        elem_at_slice_assign [OF w1(2) assms(2) assms(12) pS assms(13,14)]
        that A1 assms(13,14)
      by (simp add: bc_at_rank3_in_4 [OF assms(5)] bc_at_rank3_in_4 [OF assms(6)])
  qed
  have new: "elem_at (cache_k A2) [b, 3, h, d] = elem_at xk2 [0, h, d]
           \<and> elem_at (cache_v A2) [b, 3, h, d] = elem_at xv2 [0, h, d]" if "b < bsz"
  proof -
    have pS: "3 < S" using assms(3) by simp
    show ?thesis
      using elem_at_slice_assign [OF w2(1) s1(1) assms(12) pS assms(13,14)]
        elem_at_slice_assign [OF w2(2) s1(2) assms(12) pS assms(13,14)]
        that A2 assms(13,14)
      by (simp add: bc_at_rank3_in_4 [OF assms(9)] bc_at_rank3_in_4 [OF assms(10)])
  qed
  have read2: "fst (Attention_forward (A1\<lparr>cache_k := ck', cache_v := cv'\<rparr>) x2 3 fc2 m2)
                  = fst (Attention_forward A1 x2 3 fc2 m2)"
    if sh: "shape ck' = [B, S, H, D]" "shape cv' = [B, S, H, D]"
      and ag: "\<forall>b' p' h' d'. b' < B \<and> p' < 4 \<and> h' < H \<and> d' < D \<longrightarrow>
                   elem_at ck' [b', p', h', d'] = elem_at (cache_k A1) [b', p', h', d']
                 \<and> elem_at cv' [b', p', h', d'] = elem_at (cache_v A1) [b', p', h', d']"
    for ck' cv'
  proof (rule Attention_forward_read_frame [OF s1 sh _ _ assms(8) w2])
    fix b' p' h' d' :: nat
    assume "b' < B" "p' < S" "p' < 3 + 1" "h' < H" "d' < D"
    then show "elem_at ck' [b', p', h', d'] = elem_at (cache_k A1) [b', p', h', d']"
      using ag by simp
  next
    fix b' p' h' d' :: nat
    assume "b' < B" "p' < S" "p' < 3 + 1" "h' < H" "d' < D"
    then show "elem_at cv' [b', p', h', d'] = elem_at (cache_v A1) [b', p', h', d']"
      using ag by simp
  qed
  have read1: "fst (Attention_forward (A\<lparr>cache_k := ck', cache_v := cv'\<rparr>) x1 0 fc1 m1)
                  = fst (Attention_forward A x1 0 fc1 m1)"
    if sh: "shape ck' = [B, S, H, D]" "shape cv' = [B, S, H, D]"
      and ag: "\<forall>b' p' h' d'. b' < B \<and> p' < 3 \<and> h' < H \<and> d' < D \<longrightarrow>
                   elem_at ck' [b', p', h', d'] = elem_at (cache_k A) [b', p', h', d']
                 \<and> elem_at cv' [b', p', h', d'] = elem_at (cache_v A) [b', p', h', d']"
    for ck' cv'
  proof (rule Attention_forward_read_frame [OF assms(1,2) sh _ _ assms(4) w1])
    fix b' p' h' d' :: nat
    assume "b' < B" "p' < S" "p' < 0 + 3" "h' < H" "d' < D"
    then show "elem_at ck' [b', p', h', d'] = elem_at (cache_k A) [b', p', h', d']"
      using ag by simp
  next
    fix b' p' h' d' :: nat
    assume "b' < B" "p' < S" "p' < 0 + 3" "h' < H" "d' < D"
    then show "elem_at cv' [b', p', h', d'] = elem_at (cache_v A) [b', p', h', d']"
      using ag by simp
  qed
  show ?thesis
    using frame old new read1 read2 by blast
qed

theorem kv_cache_two_calls_witness:
  "shape (cache_k example_attention) = [1, 4, 1, 2]
   \<and> shape (cache_v example_attention) = [1, 4, 1, 2]
   \<and> Attention_qkv example_attention example_prompt (slice_rows 0 3 example_table)
       = Inr (1, 3, \<lparr>shape = [3, 1, 2], data = [0, 0, 0, 0, 0, 0]\<rparr>,
              \<lparr>shape = [3, 1, 2],
               data = [1, 2, 3 * cos 1 - 3 * sin 1, 4 * cos 1 + 4 * sin 1,
                       5 * cos 2 - 5 * sin 2, 6 * cos 2 + 6 * sin 2]\<rparr>,
              \<lparr>shape = [3, 1, 2], data = [1, 2, 3, 4, 5, 6]\<rparr>)
   \<and> Attention_qkv example_after_prompt example_step (slice_rows 3 4 example_table)
       = Inr (1, 1, \<lparr>shape = [1, 1, 2], data = [0, 0]\<rparr>,
              \<lparr>shape = [1, 1, 2], data = [7 * cos 3 - 7 * sin 3, 8 * cos 3 + 8 * sin 3]\<rparr>,
              \<lparr>shape = [1, 1, 2], data = [7, 8]\<rparr>)
   \<and> elem_at (cache_k example_after_step) [0, 0, 0, 1]
       = elem_at (cache_k example_after_prompt) [0, 0, 0, 1]
   \<and> elem_at (cache_k example_after_step) [0, 1, 0, 1]
       = elem_at (cache_k example_after_prompt) [0, 1, 0, 1]
   \<and> elem_at (cache_k example_after_step) [0, 2, 0, 1]
       = elem_at (cache_k example_after_prompt) [0, 2, 0, 1]
   \<and> elem_at (cache_k example_after_prompt) [0, 2, 0, 1] = 6 * cos 2 + 6 * sin 2
   \<and> elem_at (cache_k example_after_step) [0, 3, 0, 1] = 8 * cos 3 + 8 * sin 3
   \<and> elem_at (cache_v example_after_step) [0, 3, 0, 1] = 8
   \<and> elem_at example_stale_cache [0, 3, 0, 1] = 9
   \<and> elem_at (cache_v example_attention) [0, 3, 0, 1] = 0
   \<and> fst (Attention_forward
            (example_attention\<lparr>cache_k := example_stale_cache, cache_v := example_stale_cache\<rparr>)
            example_prompt 0 (slice_rows 0 3 example_table) (causal_mask 3 0))
       = fst (Attention_forward example_attention example_prompt 0
               (slice_rows 0 3 example_table) (causal_mask 3 0))"
proof -
  have s: "shape (cache_k example_attention) = [1, 4, 1, 2]"
          "shape (cache_v example_attention) = [1, 4, 1, 2]"
    by (simp_all add: example_attention_def zeros_def shape_tabulate)
  note q1 = example_qkv_prompt
  have q2: "Attention_qkv example_after_prompt example_step (slice_rows 3 4 example_table)
       = Inr (1, 1, \<lparr>shape = [1, 1, 2], data = [0, 0]\<rparr>,
              \<lparr>shape = [1, 1, 2], data = [7 * cos 3 - 7 * sin 3, 8 * cos 3 + 8 * sin 3]\<rparr>,
              \<lparr>shape = [1, 1, 2], data = [7, 8]\<rparr>)"
    unfolding example_after_prompt_def Attention_qkv_after_forward by (rule example_qkv_step)
  have c: "(\<forall>p < 4. p \<noteq> 3 \<longrightarrow>
            elem_at (cache_k example_after_step) [0, p, 0, 1]
              = elem_at (cache_k example_after_prompt) [0, p, 0, 1]
          \<and> elem_at (cache_v example_after_step) [0, p, 0, 1]
              = elem_at (cache_v example_after_prompt) [0, p, 0, 1])
       \<and> ((0::nat) < 1 \<longrightarrow>
            (\<forall>p < 3. elem_at (cache_k example_after_prompt) [0, p, 0, 1]
                       = elem_at \<lparr>shape = [3, 1, 2],
                                  data = [1, 2, 3 * cos 1 - 3 * sin 1, 4 * cos 1 + 4 * sin 1,
                                          5 * cos 2 - 5 * sin 2, 6 * cos 2 + 6 * sin 2]\<rparr> [p, 0, 1]
                    \<and> elem_at (cache_v example_after_prompt) [0, p, 0, 1]
                       = elem_at \<lparr>shape = [3, 1, 2], data = [1, 2, 3, 4, 5, 6]\<rparr> [p, 0, 1])
          \<and> elem_at (cache_k example_after_step) [0, 3, 0, 1]
             = elem_at \<lparr>shape = [1, 1, 2],
                        data = [7 * cos 3 - 7 * sin 3, 8 * cos 3 + 8 * sin 3]\<rparr> [0, 0, 1]
          \<and> elem_at (cache_v example_after_step) [0, 3, 0, 1]
             = elem_at \<lparr>shape = [1, 1, 2], data = [7, 8]\<rparr> [0, 0, 1])
       \<and> (\<forall>ck' cv'. shape ck' = [1, 4, 1, 2] \<and> shape cv' = [1, 4, 1, 2]
            \<and> (\<forall>b' p' h' d'. b' < 1 \<and> p' < 4 \<and> h' < 1 \<and> d' < 2 \<longrightarrow>
                   elem_at ck' [b', p', h', d']
                     = elem_at (cache_k example_after_prompt) [b', p', h', d']
                 \<and> elem_at cv' [b', p', h', d']
                     = elem_at (cache_v example_after_prompt) [b', p', h', d'])
            \<longrightarrow> fst (Attention_forward (example_after_prompt\<lparr>cache_k := ck', cache_v := cv'\<rparr>)
                       example_step 3 (slice_rows 3 4 example_table) (causal_mask 1 3))
                  = fst (Attention_forward example_after_prompt example_step 3
                          (slice_rows 3 4 example_table) (causal_mask 1 3)))
       \<and> (\<forall>ck' cv'. shape ck' = [1, 4, 1, 2] \<and> shape cv' = [1, 4, 1, 2]
            \<and> (\<forall>b' p' h' d'. b' < 1 \<and> p' < 3 \<and> h' < 1 \<and> d' < 2 \<longrightarrow>
                   elem_at ck' [b', p', h', d']
                     = elem_at (cache_k example_attention) [b', p', h', d']
                 \<and> elem_at cv' [b', p', h', d']
                     = elem_at (cache_v example_attention) [b', p', h', d'])
            \<longrightarrow> fst (Attention_forward (example_attention\<lparr>cache_k := ck', cache_v := cv'\<rparr>)
                       example_prompt 0 (slice_rows 0 3 example_table) (causal_mask 3 0))
                  = fst (Attention_forward example_attention example_prompt 0
                          (slice_rows 0 3 example_table) (causal_mask 3 0)))"
    by (rule kv_cache_two_calls [OF s(1) s(2) _ q1 _ _ example_after_prompt_def q2 _ _
          example_after_step_def]) simp_all
  note c1 = c [THEN conjunct1]
  note c2 = c [THEN conjunct2, THEN conjunct1]
  note c4 = c [THEN conjunct2, THEN conjunct2, THEN conjunct2]
  have k2: "elem_at (cache_k example_after_prompt) [0, 2, 0, 1] = 6 * cos 2 + 6 * sin 2"
    using c2 by (simp add: elem_at_def)
  have k3: "elem_at (cache_k example_after_step) [0, 3, 0, 1] = 8 * cos 3 + 8 * sin 3"
    using c2 by (simp add: elem_at_def)
  have v3: "elem_at (cache_v example_after_step) [0, 3, 0, 1] = 8"
    using c2 by (simp add: elem_at_def)
  have u: "elem_at (cache_k example_after_step) [0, 0, 0, 1]
             = elem_at (cache_k example_after_prompt) [0, 0, 0, 1]"
          "elem_at (cache_k example_after_step) [0, 1, 0, 1]
             = elem_at (cache_k example_after_prompt) [0, 1, 0, 1]"
          "elem_at (cache_k example_after_step) [0, 2, 0, 1]
             = elem_at (cache_k example_after_prompt) [0, 2, 0, 1]"
    using c1 by simp_all
  have st: "shape example_stale_cache = [1, 4, 1, 2]"
    by (simp add: example_stale_cache_def shape_tabulate)
  have ag: "elem_at example_stale_cache [b', p', h', d']
              = elem_at (cache_k example_attention) [b', p', h', d']
          \<and> elem_at example_stale_cache [b', p', h', d']
              = elem_at (cache_v example_attention) [b', p', h', d']"
    if "b' < 1" "p' < 3" "h' < 1" "d' < 2" for b' p' h' d'
    using that
    by (simp add: example_stale_cache_def example_attention_def zeros_def elem_at_tabulate
        valid_index_4)
  have p9: "elem_at example_stale_cache [0, 3, 0, 1] = 9"
    by (simp add: example_stale_cache_def elem_at_tabulate valid_index_4)
  have p0: "elem_at (cache_v example_attention) [0, 3, 0, 1] = 0"
    by (simp add: example_attention_def zeros_def elem_at_tabulate valid_index_4)
  have r: "fst (Attention_forward
            (example_attention\<lparr>cache_k := example_stale_cache, cache_v := example_stale_cache\<rparr>)
            example_prompt 0 (slice_rows 0 3 example_table) (causal_mask 3 0))
       = fst (Attention_forward example_attention example_prompt 0
               (slice_rows 0 3 example_table) (causal_mask 3 0))"
  proof -
    have hyp: "shape example_stale_cache = [1, 4, 1, 2] \<and> shape example_stale_cache = [1, 4, 1, 2]
            \<and> (\<forall>b' p' h' d'. b' < 1 \<and> p' < 3 \<and> h' < 1 \<and> d' < 2 \<longrightarrow>
                   elem_at example_stale_cache [b', p', h', d']
                     = elem_at (cache_k example_attention) [b', p', h', d']
                 \<and> elem_at example_stale_cache [b', p', h', d']
                     = elem_at (cache_v example_attention) [b', p', h', d'])"
      using st ag by blast
    show ?thesis
      by (rule c4 [THEN spec, THEN spec, THEN mp, OF hyp])
  qed
  show ?thesis
    using s q1 q2 u k2 k3 v3 p9 p0 r by blast
qed

subsection \<open>Scores, mask and output of the attention layer\<close>

lemma shape_transpose_dims:
  "transpose_dims d1 d2 t = Inr t' \<Longrightarrow> shape t' = swap_dims d1 d2 (shape t)"
  by (auto simp: transpose_dims_def shape_tabulate split: if_splits)

lemma transpose_dims_Inr:
  "d1 < length (shape t) \<Longrightarrow> d2 < length (shape t)
     \<Longrightarrow> \<exists>t'. transpose_dims d1 d2 t = Inr t' \<and> shape t' = swap_dims d1 d2 (shape t)"
  by (simp add: transpose_dims_def shape_tabulate)

lemma shape_tensor_map [simp]: "shape (tensor_map f t) = shape t"
  by (simp add: tensor_map_def)

lemma shape_softmax [simp]: "shape (softmax t) = shape t"
  by (simp add: softmax_def Let_def)

lemma broadcast_shapes_1_2:
  "broadcast_shapes [H] [b, H] = Inr [b, H]"
  by (simp add: broadcast_shapes_def pad_shape_def)

lemma broadcast_shapes_2_2:
  "broadcast_shapes [b, H] [b, H] = Inr [b, H]"
  by (simp add: broadcast_shapes_def pad_shape_def)

lemma matmul_3_4:
  "shape a = [H, s, D] \<Longrightarrow> shape b = [b', H, D, L]
     \<Longrightarrow> \<exists>c. matmul a b = Inr c \<and> shape c = [b', H, s, L]"
  by (simp add: matmul_def Let_def broadcast_shapes_1_2 shape_tabulate)

lemma matmul_4_4:
  "shape a = [b', H, s, L] \<Longrightarrow> shape b = [b', H, L, D]
     \<Longrightarrow> \<exists>c. matmul a b = Inr c \<and> shape c = [b', H, s, D]"
  by (simp add: matmul_def Let_def broadcast_shapes_2_2 shape_tabulate)

lemma broadcast_shapes_4_4:
  "broadcast_shapes [a0, a1, a2, a3] [b0, b1, b2, b3]
     = bind_err (broadcast_dim a0 b0) (\<lambda>c0. bind_err (broadcast_dim a1 b1)
         (\<lambda>c1. bind_err (broadcast_dim a2 b2)
         (\<lambda>c2. bind_err (broadcast_dim a3 b3) (\<lambda>c3. Inr [c0, c1, c2, c3]))))"
  by (simp add: broadcast_shapes_def pad_shape_def bind_err_def split: sum.splits)

lemma shape_triu [simp]: "shape (triu k t) = shape t"
  by (simp add: triu_def shape_tabulate)

lemma shape_full [simp]: "shape (full sh v) = sh"
  by (simp add: full_def shape_tabulate)

lemma causal_mask_Some:
  "1 < s \<Longrightarrow> \<exists>m. causal_mask s sp = Some m \<and> shape m = [1, 1, s, s]"
  by (simp add: causal_mask_def)

lemma causal_mask_None: "causal_mask 1 sp = None" "causal_mask 0 sp = None"
  by (simp_all add: causal_mask_def)

lemma scaled_scores_shape:
  assumes "shape xqT = [H, s, D]" "shape keysT = [b', H, L, D]"
  shows "\<exists>sc. scaled_scores xqT keysT hdim = Inr sc \<and> shape sc = [b', H, s, L]"
proof -
  obtain kT where kT: "transpose_dims 2 3 keysT = Inr kT" "shape kT = [b', H, D, L]"
    using transpose_dims_Inr [of 2 keysT 3] assms(2) by (auto simp: swap_dims_def)
  obtain c where c: "matmul xqT kT = Inr c" "shape c = [b', H, s, L]"
    using matmul_3_4 [OF assms(1) kT(2)] by auto
  show ?thesis
    by (simp add: scaled_scores_def kT(1) c)
qed

lemma add_mask_mismatch:
  assumes "shape sc = [b', H, s, L]" "shape m = [1, 1, s, s]" "1 < s" "L \<noteq> s" "L \<noteq> 1"
  shows "add_mask sc (Some m) = Inl RuntimeError"
  using assms
  by (simp add: add_mask_def tensor_binop_def broadcast_shapes_4_4 broadcast_dim_def)

lemma add_mask_match:
  assumes "shape sc = [b', H, s, s]" "shape m = [1, 1, s, s]"
  shows "\<exists>r. add_mask sc (Some m) = Inr r \<and> shape r = [b', H, s, s]"
  using assms
  by (simp add: add_mask_def tensor_binop_def broadcast_shapes_4_4 shape_tabulate)

lemma add_mask_None: "\<exists>r. add_mask sc None = Inr r \<and> shape r = shape sc"
  by (simp add: add_mask_def)

lemma Attention_scores_shape:
  assumes "shape (cache_k A) = [B, S, H, D]" "shape (cache_v A) = [B, S, H, D]"
    "shape xq = [s, H, D]"
  shows "\<exists>sc vals. Attention_scores A bsz s sp xq = Inr (sc, vals)
           \<and> shape sc = [min bsz B, H, s, min (sp + s) S]
           \<and> shape vals = [min bsz B, H, min (sp + s) S, D]"
proof -
  let ?b = "min bsz B" and ?L = "min (sp + s) S"
  have rk: "slice_read (cache_k A) bsz (sp + s)
              = Inr (tabulate [?b, ?L, H, D] (elem_at (cache_k A)))"
    and rv: "slice_read (cache_v A) bsz (sp + s)
              = Inr (tabulate [?b, ?L, H, D] (elem_at (cache_v A)))"
    using assms(1,2) by (simp_all add: slice_read_4)
  obtain xqT where xqT: "transpose_dims 0 1 xq = Inr xqT" "shape xqT = [H, s, D]"
    using transpose_dims_Inr [of 0 xq 1] assms(3) by (auto simp: swap_dims_def)
  obtain kT where kT:
    "transpose_dims 1 2 (tabulate [?b, ?L, H, D] (elem_at (cache_k A))) = Inr kT"
    "shape kT = [?b, H, ?L, D]"
    using transpose_dims_Inr [of 1 "tabulate [?b, ?L, H, D] (elem_at (cache_k A))" 2]
    by (auto simp: swap_dims_def shape_tabulate)
  obtain vT where vT:
    "transpose_dims 1 2 (tabulate [?b, ?L, H, D] (elem_at (cache_v A))) = Inr vT"
    "shape vT = [?b, H, ?L, D]"
    using transpose_dims_Inr [of 1 "tabulate [?b, ?L, H, D] (elem_at (cache_v A))" 2]
    by (auto simp: swap_dims_def shape_tabulate)
  obtain sc where sc: "scaled_scores xqT kT (head_dim A) = Inr sc" "shape sc = [?b, H, s, ?L]"
    using scaled_scores_shape [OF xqT(2) kT(2)] by auto
  show ?thesis
    by (simp only: Attention_scores_def rk rv bind_err_simps xqT(1) kT(1) vT(1) sc(1))
       (simp add: sc(2) vT(2))
qed

lemma Attention_output_mask_mismatch:
  assumes "shape (cache_k A) = [B, S, H, D]" "shape (cache_v A) = [B, S, H, D]"
    "shape xq = [s, H, D]" "shape m = [1, 1, s, s]" "1 < s" "0 < sp" "sp + s \<le> S"
  shows "Attention_output A bsz s sp xq (Some m) = Inl RuntimeError"
proof -
  obtain sc vals where sc: "Attention_scores A bsz s sp xq = Inr (sc, vals)"
    "shape sc = [min bsz B, H, s, min (sp + s) S]"
    using Attention_scores_shape [OF assms(1-3)] by blast
  have "add_mask sc (Some m) = Inl RuntimeError"
    using assms(5-7) by (intro add_mask_mismatch [OF sc(2) assms(4)]) simp_all
  then show ?thesis
    by (simp only: Attention_output_def sc(1) bind_err_simps prod.case)
qed

lemma view_infer_exact: "0 < k \<Longrightarrow> view_infer k (k * n) = Inr n"
  by (simp add: view_infer_def)

lemma Attention_output_returns:
  assumes "shape (cache_k A) = [B, S, H, D]" "shape (cache_v A) = [B, S, H, D]"
    "shape xq = [s, H, D]" "0 < bsz" "bsz \<le> B" "0 < s"
    "in_features (wo A) = H * D"
    and msk: "msk = None \<or> (\<exists>m. msk = Some m \<and> shape m = [1, 1, s, s] \<and> min (sp + s) S = s)"
  shows "\<exists>y. Attention_output A bsz s sp xq msk = Inr y
           \<and> shape y = [bsz, s, out_features (wo A)]"
proof -
  let ?L = "min (sp + s) S"
  have mn: "min bsz B = bsz"
    using assms(5) by simp
  obtain sc vals where sc: "Attention_scores A bsz s sp xq = Inr (sc, vals)"
    "shape sc = [bsz, H, s, ?L]" "shape vals = [bsz, H, ?L, D]"
    using Attention_scores_shape [OF assms(1-3), of bsz sp] unfolding mn by blast
  obtain r where r: "add_mask sc msk = Inr r" "shape r = [bsz, H, s, ?L]"
    using msk
  proof
    assume "msk = None"
    then show ?thesis using add_mask_None [of sc] sc(2) that by auto
  next
    assume "\<exists>m. msk = Some m \<and> shape m = [1, 1, s, s] \<and> ?L = s"
    then obtain m where m: "msk = Some m" "shape m = [1, 1, s, s]" "?L = s" by blast
    then show ?thesis
      using add_mask_match [of sc bsz H s m] sc(2) that by auto
  qed
  obtain out where out: "matmul (softmax r) vals = Inr out" "shape out = [bsz, H, s, D]"
    using matmul_4_4 [of "softmax r" bsz H s ?L vals D] r(2) sc(3) by auto
  obtain outT where outT: "transpose_dims 1 2 out = Inr outT" "shape outT = [bsz, s, H, D]"
    using transpose_dims_Inr [of 1 out 2] out(2) by (auto simp: swap_dims_def)
  have "numel outT = (bsz * s) * (H * D)"
    by (simp add: numel_def outT(2))
  then have v: "view_infer (bsz * s) (numel outT) = Inr (H * D)"
    using assms(4,6) by (simp add: view_infer_exact)
  show ?thesis
    by (simp only: Attention_output_def sc(1) bind_err_simps prod.case r(1) out(1) outT(1) v)
       (simp add: linear_def assms(7))
qed

subsection \<open>The causal mask against the scores\<close>

lemma returns_simps [simp]: "returns (Inr v)" "\<not> returns (Inl e)"
  by (simp_all add: returns_def)

lemma example_cache_shapes:
  "shape (cache_k example_attention) = [1, 4, 1, 2]"
  "shape (cache_v example_attention) = [1, 4, 1, 2]"
  by (simp_all add: example_attention_def zeros_def shape_tabulate)


lemma example_wo: "in_features (wo example_attention) = 1 * 2"
  by (simp add: example_attention_def)

lemma example_qkv_pair:
  "Attention_qkv example_attention example_pair (slice_rows 1 3 example_table)
     = Inr (1, 2, \<lparr>shape = [2, 1, 2], data = [0, 0, 0, 0]\<rparr>,
            \<lparr>shape = [2, 1, 2],
             data = [cos 1 - sin 1, 2 * cos 1 + 2 * sin 1,
                     3 * cos 2 - 3 * sin 2, 4 * cos 2 + 4 * sin 2]\<rparr>,
            \<lparr>shape = [2, 1, 2], data = [1, 2, 3, 4]\<rparr>)"
  by (simp add: example_attention_def example_pair_def example_table_def eval_defs)

lemma example_qkv_pair_0:
  "Attention_qkv example_attention example_pair (slice_rows 0 2 example_table)
     = Inr (1, 2, \<lparr>shape = [2, 1, 2], data = [0, 0, 0, 0]\<rparr>,
            \<lparr>shape = [2, 1, 2],
             data = [1, 2, 3 * cos 1 - 3 * sin 1, 4 * cos 1 + 4 * sin 1]\<rparr>,
            \<lparr>shape = [2, 1, 2], data = [1, 2, 3, 4]\<rparr>)"
  by (simp add: example_attention_def example_pair_def example_table_def eval_defs)


lemma Attention_forward_within:
  assumes "shape (cache_k A) = [B, S, H, D]" "shape (cache_v A) = [B, S, H, D]"
    and "Attention_qkv A x fc = Inr (bsz, s, xq, xk, xv)"
    and "shape xk = [s, H, D]" "shape xv = [s, H, D]"
    and "sp + s \<le> S \<or> s = 1"
  shows "\<exists>ck cv. Attention_forward A x sp fc m
                   = (Attention_output (A\<lparr>cache_k := ck, cache_v := cv\<rparr>) bsz s sp xq m,
                      A\<lparr>cache_k := ck, cache_v := cv\<rparr>)
                 \<and> shape ck = [B, S, H, D] \<and> shape cv = [B, S, H, D]"
proof -
  have e: "expandable (shape xk) (slice_shape [B, S, H, D] bsz sp (sp + s))"
          "expandable (shape xv) (slice_shape [B, S, H, D] bsz sp (sp + s))"
    using assms(4,5,6) by (auto simp: slice_shape_4 expandable_3_4 expandable_one_3_4)
  obtain ck cv where w:
    "slice_assign (cache_k A) bsz sp (sp + s) xk = Inr ck"
    "slice_assign (cache_v A) bsz sp (sp + s) xv = Inr cv"
    using slice_assign_Inr [OF assms(1) e(1)] slice_assign_Inr [OF assms(2) e(2)] by simp
  have "Attention_forward A x sp fc m
          = (Attention_output (A\<lparr>cache_k := ck, cache_v := cv\<rparr>) bsz s sp xq m,
             A\<lparr>cache_k := ck, cache_v := cv\<rparr>)
        \<and> shape ck = [B, S, H, D] \<and> shape cv = [B, S, H, D]"
    using Attention_forward_written [OF assms(3) w]
      shape_slice_assign [OF w(1)] shape_slice_assign [OF w(2)] assms(1,2)
    by simp
  then show ?thesis by blast
qed

text \<open>
  C8. A call of \<open>Attention_forward\<close> with more than one position that fits into the
  cache, given the mask that \<^verbatim>\<open>Transformer.forward\<close> builds for it:
  \<^item> the mask has shape \<open>[1, 1, seqlen, seqlen]\<close>;
  \<^item> the scores, computed on the caches as the call has written them, have shape
    \<open>[bsz, heads, seqlen, start_pos + seqlen]\<close>;
  \<^item> with \<open>0 < start_pos\<close> the two do not broadcast and the call ends in
    \<^verbatim>\<open>RuntimeError\<close>;
  \<^item> with \<open>start_pos = 0\<close> the call returns;
  \<^item> a single position has no mask, and such a call returns at any \<open>start_pos\<close>.
\<close>

theorem causal_mask_shape_mismatch:
  assumes "shape (cache_k A) = [B, S, H, D]" and "shape (cache_v A) = [B, S, H, D]"
    and "Attention_qkv A x fc = Inr (bsz, s, xq, xk, xv)"
    and "shape xq = [s, H, D]" and "shape xk = [s, H, D]" and "shape xv = [s, H, D]"
    and "1 < s" and "sp + s \<le> S"
    and "0 < bsz" and "bsz \<le> B" and "in_features (wo A) = H * D"
  shows "(\<exists>m. causal_mask s sp = Some m \<and> shape m = [1, 1, s, s])
       \<and> (\<exists>sc vals.
             Attention_scores (snd (Attention_forward A x sp fc (causal_mask s sp))) bsz s sp xq
               = Inr (sc, vals)
             \<and> shape sc = [bsz, H, s, sp + s])
       \<and> (0 < sp \<longrightarrow> fst (Attention_forward A x sp fc (causal_mask s sp)) = Inl RuntimeError)
       \<and> (sp = 0 \<longrightarrow> returns (fst (Attention_forward A x sp fc (causal_mask s sp))))
       \<and> causal_mask 1 sp = None
       \<and> (\<forall>x1 fc1 xq1 xk1 xv1.
             Attention_qkv A x1 fc1 = Inr (bsz, 1, xq1, xk1, xv1)
             \<and> shape xq1 = [1, H, D] \<and> shape xk1 = [1, H, D] \<and> shape xv1 = [1, H, D]
             \<longrightarrow> returns (fst (Attention_forward A x1 sp fc1 (causal_mask 1 sp))))"
proof (intro conjI impI allI)
  obtain m where m: "causal_mask s sp = Some m" "shape m = [1, 1, s, s]"
    using causal_mask_Some [OF assms(7)] by blast
  show "\<exists>m. causal_mask s sp = Some m \<and> shape m = [1, 1, s, s]"
    using m by blast
  obtain ck cv where f: "Attention_forward A x sp fc (causal_mask s sp)
                   = (Attention_output (A\<lparr>cache_k := ck, cache_v := cv\<rparr>) bsz s sp xq
                        (causal_mask s sp),
                      A\<lparr>cache_k := ck, cache_v := cv\<rparr>)"
      and sc: "shape ck = [B, S, H, D]" "shape cv = [B, S, H, D]"
    using Attention_forward_within [OF assms(1,2,3,5,6), of sp "causal_mask s sp"] assms(8)
    by blast
  let ?W = "A\<lparr>cache_k := ck, cache_v := cv\<rparr>"
  have sW: "shape (cache_k ?W) = [B, S, H, D]" "shape (cache_v ?W) = [B, S, H, D]"
    using sc by simp_all
  have wo: "in_features (wo ?W) = H * D"
    using assms(11) by simp
  have mn: "min bsz B = bsz" "min (sp + s) S = sp + s"
    using assms(8,10) by simp_all
  show "\<exists>sc vals.
             Attention_scores (snd (Attention_forward A x sp fc (causal_mask s sp))) bsz s sp xq
               = Inr (sc, vals)
             \<and> shape sc = [bsz, H, s, sp + s]"
    using Attention_scores_shape [OF sW assms(4), of bsz sp] unfolding mn f by auto
  show "fst (Attention_forward A x sp fc (causal_mask s sp)) = Inl RuntimeError" if "0 < sp"
    using Attention_output_mask_mismatch [OF sW assms(4) m(2) assms(7) that assms(8), of bsz]
    by (simp add: f [unfolded m(1)] m(1))
  show "returns (fst (Attention_forward A x sp fc (causal_mask s sp)))" if "sp = 0"
  proof -
    have "0 < s" using assms(7) by simp
    moreover have "causal_mask s sp = None
        \<or> (\<exists>m. causal_mask s sp = Some m \<and> shape m = [1, 1, s, s] \<and> min (sp + s) S = s)"
      using m that assms(8) by simp
    ultimately obtain y where "Attention_output ?W bsz s sp xq (causal_mask s sp) = Inr y"
      using Attention_output_returns [OF sW assms(4) assms(9,10) _ wo, of "causal_mask s sp" sp]
      by blast
    then show ?thesis by (simp add: f)
  qed
  show "causal_mask 1 sp = None"
    by (rule causal_mask_None)
  show "returns (fst (Attention_forward A x1 sp fc1 (causal_mask 1 sp)))"
    if h: "Attention_qkv A x1 fc1 = Inr (bsz, 1, xq1, xk1, xv1)
             \<and> shape xq1 = [1, H, D] \<and> shape xk1 = [1, H, D] \<and> shape xv1 = [1, H, D]"
    for x1 fc1 xq1 xk1 xv1
  proof -
    from h have q1: "Attention_qkv A x1 fc1 = Inr (bsz, 1, xq1, xk1, xv1)"
      and s1: "shape xq1 = [1, H, D]" "shape xk1 = [1, H, D]" "shape xv1 = [1, H, D]"
      by simp_all
    obtain ck1 cv1 where f1: "Attention_forward A x1 sp fc1 None
                   = (Attention_output (A\<lparr>cache_k := ck1, cache_v := cv1\<rparr>) bsz 1 sp xq1 None,
                      A\<lparr>cache_k := ck1, cache_v := cv1\<rparr>)"
      and sc1: "shape ck1 = [B, S, H, D]" "shape cv1 = [B, S, H, D]"
      using Attention_forward_within [OF assms(1,2) q1 s1(2,3), of sp None] by blast
    let ?V = "A\<lparr>cache_k := ck1, cache_v := cv1\<rparr>"
    have sV: "shape (cache_k ?V) = [B, S, H, D]" "shape (cache_v ?V) = [B, S, H, D]"
      using sc1 by simp_all
    have woV: "in_features (wo ?V) = H * D"
      using assms(11) by simp
    obtain y where "Attention_output ?V bsz 1 sp xq1 None = Inr y"
      using Attention_output_returns [OF sV s1(1) assms(9,10) _ woV, of None sp] by auto
    then show ?thesis
      by (simp only: causal_mask_None f1 fst_conv returns_simps)
  qed
qed

theorem causal_mask_shape_mismatch_witness:
  "shape (cache_k example_attention) = [1, 4, 1, 2]
   \<and> shape (cache_v example_attention) = [1, 4, 1, 2]
   \<and> (1::nat) < 2 \<and> (1::nat) + 2 \<le> 4
   \<and> in_features (wo example_attention) = 1 * 2
   \<and> Attention_qkv example_attention example_pair (slice_rows 1 3 example_table)
       = Inr (1, 2, \<lparr>shape = [2, 1, 2], data = [0, 0, 0, 0]\<rparr>,
              \<lparr>shape = [2, 1, 2],
               data = [cos 1 - sin 1, 2 * cos 1 + 2 * sin 1,
                       3 * cos 2 - 3 * sin 2, 4 * cos 2 + 4 * sin 2]\<rparr>,
              \<lparr>shape = [2, 1, 2], data = [1, 2, 3, 4]\<rparr>)
   \<and> fst (Attention_forward example_attention example_pair 1 (slice_rows 1 3 example_table)
            (causal_mask 2 1)) = Inl RuntimeError
   \<and> returns (fst (Attention_forward example_attention example_pair 0
                     (slice_rows 0 2 example_table) (causal_mask 2 0)))"
proof -
  have a: "fst (Attention_forward example_attention example_pair 1 (slice_rows 1 3 example_table)
            (causal_mask 2 1)) = Inl RuntimeError"
    using causal_mask_shape_mismatch
      [OF example_cache_shapes example_qkv_pair _ _ _ _ _ _ _ example_wo, of 1] by simp
  have b: "returns (fst (Attention_forward example_attention example_pair 0
                     (slice_rows 0 2 example_table) (causal_mask 2 0)))"
    using causal_mask_shape_mismatch
      [OF example_cache_shapes example_qkv_pair_0 _ _ _ _ _ _ _ example_wo, of 0] by simp
  show ?thesis
    using example_cache_shapes example_wo example_qkv_pair a b by simp
qed

subsection \<open>Batches of more than one row\<close>

lemma linear_Inr:
  "linear L x = Inr y \<Longrightarrow>
     shape x \<noteq> [] \<and> last (shape x) = in_features L
     \<and> shape y = butlast (shape x) @ [out_features L]"
  by (auto simp: linear_def split: if_splits)

lemma bridge_Inr:
  assumes "encryptedLinearTransform ckks_tensor decrypt L (ckks_tensor x) = Inr c"
  shows "shape x \<noteq> [] \<and> last (shape x) = in_features L
         \<and> shape (plain c) = butlast (shape x) @ [out_features L]"
proof -
  from assms obtain x' y where p: "plainToTorch (decrypt (ckks_tensor x)) = Inr x'"
    and l: "linear L x' = Inr y" and c: "c = ckks_tensor y"
    by (auto simp: encryptedLinearTransform_def bind_err_eq_Inr)
  have "shape x' = shape x"
    using shape_plainToTorch [OF p] by (simp add: decrypt_def ckks_tensor_def)
  then show ?thesis
    using linear_Inr [OF l] c by (simp add: ckks_tensor_def)
qed

lemma Attention_qkv_batch_fails:
  assumes "shape x = [bsz, s, in_features (wq A)]"
    and "out_features (wq A) = n_local_heads A * head_dim A"
    and "1 < bsz" and "0 < s" and "0 < n_local_heads A * head_dim A"
  shows "\<exists>e. Attention_qkv A x fc = Inl e"
proof (cases "Attention_qkv A x fc")
  case (Inl e)
  then show ?thesis by blast
next
  case (Inr r)
  let ?sh = "[s, n_local_heads A, head_dim A]"
  from Inr assms(1) obtain q1 q2 where
    b: "encryptedLinearTransform ckks_tensor decrypt (wq A) (ckks_tensor (squeeze x)) = Inr q1"
    and r: "ckks_reshape ?sh q1 = Inr q2"
    by (auto simp: Attention_qkv_def Let_def bind_err_eq_Inr)
  note bs = bridge_Inr [OF b]
  have n: "prod_list ?sh = prod_list (shape (plain q1))"
    using r by (auto simp: ckks_reshape_def reshape_def numel_def bind_err_eq_Inr split: if_splits)
  have sq: "shape (squeeze x) = filter (\<lambda>d. d \<noteq> 1) [bsz, s, in_features (wq A)]"
    using assms(1) by (simp add: squeeze_def)
  show ?thesis
  proof (cases "in_features (wq A) = 1")
    case True
    then have "last (shape (squeeze x)) \<noteq> in_features (wq A)"
      using sq assms(3) by auto
    then show ?thesis using bs by simp
  next
    case False
    then have "prod_list (butlast (shape (squeeze x))) = bsz * s"
      using sq assms(3) by auto
    then have "prod_list (shape (plain q1)) = bsz * s * (n_local_heads A * head_dim A)"
      using bs assms(2) by simp
    then have "s * (n_local_heads A * head_dim A) = bsz * (s * (n_local_heads A * head_dim A))"
      using n by (simp add: mult_ac)
    then show ?thesis
      using assms(3,4,5) by simp
  qed
qed

text \<open>
  C9. A layer built by \<open>Attention_init\<close> has caches of shape
  \<open>[max_batch_size, max_seq_len, n_heads, dim div n_heads]\<close>. Whatever its caches hold
  later, a call of \<open>Attention_forward\<close> on an input of shape \<open>[bsz, seqlen, dim]\<close> with
  \<open>1 < bsz\<close>, at least one position and at least one output feature of the projections
  ends in an error before the caches are written: the squeezed input keeps its batch
  axis, so the projected ciphertext has \<open>bsz\<close> times the elements of
  \<open>[seqlen, n_heads, head_dim]\<close> and the reshape refuses it (for \<open>dim = 1\<close> the
  projection itself refuses the squeezed input).
\<close>

theorem attention_batch_one_only:
  assumes "Attention_init args wq0 wk0 wv0 wo0 = Inr A0"
    and "A = A0\<lparr>cache_k := ck, cache_v := cv\<rparr>"
    and "shape x = [bsz, s, nat (dim args)]"
    and "1 < bsz" and "0 < s" and "0 < n_heads args * (dim args div n_heads args)"
  shows "shape (cache_k A0) = [nat (max_batch_size args), nat (max_seq_len args),
                               nat (n_heads args), nat (dim args div n_heads args)]
       \<and> shape (cache_v A0) = [nat (max_batch_size args), nat (max_seq_len args),
                               nat (n_heads args), nat (dim args div n_heads args)]
       \<and> (\<exists>e. Attention_forward A x sp fc m = (Inl e, A))"
proof -
  have A0: "in_features (wq A0) = nat (dim args)"
    "out_features (wq A0) = nat (n_heads args * (dim args div n_heads args))"
    "n_local_heads A0 = nat (n_heads args)" "head_dim A0 = nat (dim args div n_heads args)"
    "shape (cache_k A0) = [nat (max_batch_size args), nat (max_seq_len args),
                               nat (n_heads args), nat (dim args div n_heads args)]"
    "shape (cache_v A0) = [nat (max_batch_size args), nat (max_seq_len args),
                               nat (n_heads args), nat (dim args div n_heads args)]"
    "0 \<le> n_heads args" "0 \<le> dim args div n_heads args"
    using assms(1)
    by (auto simp: Attention_init_def Let_def zeros_def shape_tabulate split: if_splits)
  have o: "out_features (wq A) = n_local_heads A * head_dim A"
    using A0 assms(2) by (simp add: nat_mult_distrib)
  have p: "0 < n_local_heads A * head_dim A"
    using A0 assms(2,6) by (simp add: nat_mult_distrib [symmetric])
  have x: "shape x = [bsz, s, in_features (wq A)]"
    using A0 assms(2,3) by simp
  obtain e where "Attention_qkv A x fc = Inl e"
    using Attention_qkv_batch_fails [OF x o assms(4,5) p] by blast
  then have "Attention_forward A x sp fc m = (Inl e, A)"
    by (rule Attention_forward_qkv_error)
  then show ?thesis
    using A0(5,6) by blast
qed

theorem attention_batch_one_only_witness:
  "Attention_init example_args [0, 0, 0, 0] [1, 0, 0, 1] [1, 0, 0, 1] [1, 0, 0, 1]
     = Inr example_attention
   \<and> shape example_batch = [2, 1, nat (dim example_args)]
   \<and> 0 < n_heads example_args * (dim example_args div n_heads example_args)
   \<and> shape (cache_k example_attention) = [1, 4, 1, 2]
   \<and> (\<exists>e. Attention_forward example_attention example_batch 0 (slice_rows 0 1 example_table) None
            = (Inl e, example_attention))"
proof -
  have a: "example_attention
             = example_attention\<lparr>cache_k := cache_k example_attention,
                                 cache_v := cache_v example_attention\<rparr>"
    by simp
  have x: "shape example_batch = [2, 1, nat (dim example_args)]"
    by (simp add: example_batch_def example_args_def)
  have h: "0 < n_heads example_args * (dim example_args div n_heads example_args)"
    by (simp add: example_args_def)
  have "shape (cache_k example_attention)
          = [nat (max_batch_size example_args), nat (max_seq_len example_args),
             nat (n_heads example_args), nat (dim example_args div n_heads example_args)]
       \<and> shape (cache_v example_attention)
          = [nat (max_batch_size example_args), nat (max_seq_len example_args),
             nat (n_heads example_args), nat (dim example_args div n_heads example_args)]
       \<and> (\<exists>e. Attention_forward example_attention example_batch 0
                 (slice_rows 0 1 example_table) None = (Inl e, example_attention))"
    using attention_batch_one_only [OF example_init a x _ _ h, of 0 "slice_rows 0 1 example_table" None]
    by simp
  then show ?thesis
    using example_init x h by (simp add: example_args_def)
qed

subsection \<open>Calls beyond the capacity of the cache\<close>






subsection \<open>The causal mask at a positive start position\<close>

lemma example_qkv_pair_returns:
  "returns (Attention_qkv example_attention example_pair (slice_rows 1 3 example_table))"
  by (simp only: example_qkv_pair returns_simps)

lemma example_pair_mask_mismatch:
  "fst (Attention_forward example_attention example_pair 1 (slice_rows 1 3 example_table)
          (causal_mask 2 1)) = Inl RuntimeError"
proof -
  obtain m where m: "causal_mask 2 1 = Some m" "shape m = [1, 1, 2, 2]"
    using causal_mask_Some [of 2 1] by auto
  obtain ck cv where f: "Attention_forward example_attention example_pair 1
                           (slice_rows 1 3 example_table) (Some m)
                   = (Attention_output (example_attention\<lparr>cache_k := ck, cache_v := cv\<rparr>) 1 2 1
                        \<lparr>shape = [2, 1, 2], data = [0, 0, 0, 0]\<rparr> (Some m),
                      example_attention\<lparr>cache_k := ck, cache_v := cv\<rparr>)"
      and sc: "shape ck = [1, 4, 1, 2]" "shape cv = [1, 4, 1, 2]"
    using Attention_forward_within [OF example_cache_shapes example_qkv_pair, of 1 "Some m"]
    by auto
  let ?W = "example_attention\<lparr>cache_k := ck, cache_v := cv\<rparr>"
  have sW: "shape (cache_k ?W) = [1, 4, 1, 2]" "shape (cache_v ?W) = [1, 4, 1, 2]"
    using sc by simp_all
  have "Attention_output ?W 1 2 1 \<lparr>shape = [2, 1, 2], data = [0, 0, 0, 0]\<rparr> (Some m)
          = Inl RuntimeError"
    by (rule Attention_output_mask_mismatch [OF sW _ m(2)]) simp_all
  then show ?thesis
    unfolding m(1) f by simp
qed

text \<open>
  C4. The mask for two positions at \<open>start_pos = 0\<close> holds \<open>-inf\<close> at query 0, key 1.
  At \<open>start_pos = 1\<close> the mask for two positions still has two columns, for three key
  positions, and its diagonal is moved out of it: no entry is \<open>-inf\<close>. The call of
  \<open>Attention_forward\<close> with this mask, on an input whose projections succeed, ends in
  \<^verbatim>\<open>RuntimeError\<close>: no score for query 0 and key 2 is ever masked.
\<close>

theorem causal_mask_ignores_cached_positions:
  "causal_mask 2 0 = Some \<lparr>shape = [1, 1, 2, 2], data = [Fin 0, NegInf, Fin 0, Fin 0]\<rparr>
   \<and> causal_mask 2 1 = Some \<lparr>shape = [1, 1, 2, 2], data = [Fin 0, Fin 0, Fin 0, Fin 0]\<rparr>
   \<and> shape example_pair = [1, 2, 2]
   \<and> returns (Attention_qkv example_attention example_pair (slice_rows 1 3 example_table))
   \<and> fst (Attention_forward example_attention example_pair 1 (slice_rows 1 3 example_table)
            (causal_mask 2 1)) = Inl RuntimeError"
proof -
  have m0: "causal_mask 2 0
              = Some \<lparr>shape = [1, 1, 2, 2], data = [Fin 0, NegInf, Fin 0, Fin 0]\<rparr>"
    by (simp add: causal_mask_def triu_def full_def tabulate_def elem_at_def upt_conv_Cons)
  have m1: "causal_mask 2 1
              = Some \<lparr>shape = [1, 1, 2, 2], data = [Fin 0, Fin 0, Fin 0, Fin 0]\<rparr>"
    by (simp add: causal_mask_def triu_def full_def tabulate_def elem_at_def upt_conv_Cons)
  have x: "shape example_pair = [1, 2, 2]"
    by (simp add: example_pair_def)
  show ?thesis
    using m0 m1 x example_qkv_pair_returns example_pair_mask_mismatch by blast
qed

subsection \<open>The shape of the hidden state through the decoder stack\<close>

lemma shape_RMSNorm_norm [simp]: "shape (RMSNorm_norm N x) = shape x"
  by (simp add: RMSNorm_norm_def Let_def)























subsection \<open>The encrypted linear-projection bridge\<close>











end
